theory Spec2Isabelle
  imports Complex_Main
begin

section \<open>Python strings and built-ins used by the bot\<close>

text \<open>
  Text is modelled as a HOL \<open>string\<close> whose characters stand for the code points 0 to
  255 (ASCII and the Latin-1 supplement): \<open>length\<close> is Python's \<open>len\<close>, and case
  mapping and whitespace follow Python's behaviour on these code points. Text with a code
  point above 255 is no value of the model.
\<close>

text \<open>\<open>str.lower()\<close>: the letters \<open>A\<close> to \<open>Z\<close> and the capital letters 192 to 222 of the
  supplement (215 is the multiplication sign) move up by 32.\<close>

definition lower_char :: "char \<Rightarrow> char" where
  "lower_char c =
     (let n = (of_char c :: nat) in
      if (65 \<le> n \<and> n \<le> 90) \<or> (192 \<le> n \<and> n \<le> 222 \<and> n \<noteq> 215) then char_of (n + 32) else c)"

definition lower :: "string \<Rightarrow> string" where
  "lower s = map lower_char s"

text \<open>
  \<open>str.upper()\<close>: the letters \<open>a\<close> to \<open>z\<close> and the small letters 224 to 254 of the
  supplement (247 is the division sign) move down by 32, and the sharp s (223) becomes
  \<open>SS\<close>. The upper-case forms of the micro sign (181) and of y with diaeresis (255) are
  the code points 924 and 376, which are no characters of the model: \<open>None\<close> says that
  the upper-case text contains one of them.
\<close>

definition upper_char :: "char \<Rightarrow> string option" where
  "upper_char c =
     (let n = (of_char c :: nat) in
      if (97 \<le> n \<and> n \<le> 122) \<or> (224 \<le> n \<and> n \<le> 254 \<and> n \<noteq> 247) then Some [char_of (n - 32)]
      else if n = 223 then Some ''SS''
      else if n = 181 \<or> n = 255 then None
      else Some [c])"

fun upper :: "string \<Rightarrow> string option" where
  "upper [] = Some []"
| "upper (c # cs) =
     (case upper_char c of
        None \<Rightarrow> None
      | Some u \<Rightarrow> (case upper cs of None \<Rightarrow> None | Some us \<Rightarrow> Some (u @ us)))"

definition startswith :: "string \<Rightarrow> string \<Rightarrow> bool" where
  "startswith s p = (take (length p) s = p)"

text \<open>\<open>str.strip()\<close> removes the characters for which \<open>str.isspace()\<close> holds: tab, line
  feed, vertical tab, form feed, carriage return, the four separators 28 to 31, space, next
  line (133) and no-break space (160).\<close>

definition isspace :: "char \<Rightarrow> bool" where
  "isspace c = (of_char c \<in> {9, 10, 11, 12, 13, 28, 29, 30, 31, 32, 133, 160 :: nat})"

definition strip :: "string \<Rightarrow> string" where
  "strip s = rev (dropWhile isspace (rev (dropWhile isspace s)))"

text \<open>\<open>s.replace('0x', '')\<close>: every occurrence of \<open>0x\<close>, scanning from the left, is removed.\<close>

fun remove_0x :: "string \<Rightarrow> string" where
  "remove_0x [] = []"
| "remove_0x [c] = [c]"
| "remove_0x (c # d # cs) =
     (if c = CHR ''0'' \<and> d = CHR ''x'' then remove_0x cs else c # remove_0x (d # cs))"

subsection \<open>\<open>int(s, 16)\<close>\<close>

text \<open>
  Python's \<open>int(s, 16)\<close> accepts more than a run of hexadecimal digits: surrounding
  whitespace, one sign, an optional \<open>0x\<close>/\<open>0X\<close> prefix (which may be followed by one
  underscore), and single underscores between digits. \<open>None\<close> stands for \<open>ValueError\<close>.
\<close>

definition hex_digit_value :: "char \<Rightarrow> int option" where
  "hex_digit_value c =
     map_of (zip ''0123456789abcdefABCDEF''
                 [0, 1, 2, 3, 4, 5, 6, 7, 8, 9, 10, 11, 12, 13, 14, 15, 10, 11, 12, 13, 14, 15]) c"

text \<open>The whitespace \<open>int\<close> skips: C's tab, line feed, vertical tab, form feed, carriage
  return and space (not the separators 28 to 31), and the whitespace outside ASCII, next
  line (133) and no-break space (160), which \<open>int\<close> turns into spaces before it parses.\<close>

definition int_space :: "char \<Rightarrow> bool" where
  "int_space c = (of_char c \<in> {9, 10, 11, 12, 13, 32, 133, 160 :: nat})"

text \<open>\<open>scan_digits acc s\<close> continues after a digit: it reads digits, each optionally
  preceded by one underscore, and returns the value and the unread rest. An underscore that
  no digit follows is an error.\<close>

fun scan_digits :: "int \<Rightarrow> string \<Rightarrow> (int \<times> string) option" where
  "scan_digits acc [] = Some (acc, [])"
| "scan_digits acc (c # cs) =
     (case hex_digit_value c of
        Some v \<Rightarrow> scan_digits (16 * acc + v) cs
      | None \<Rightarrow>
          if c = CHR ''_'' then
            (case cs of
               [] \<Rightarrow> None
             | d # ds \<Rightarrow>
                 (case hex_digit_value d of
                    Some v \<Rightarrow> scan_digits (16 * acc + v) ds
                  | None \<Rightarrow> None))
          else Some (acc, c # cs))"

definition skip_sign :: "string \<Rightarrow> int \<times> string" where
  "skip_sign s =
     (case s of
        [] \<Rightarrow> (1, [])
      | c # cs \<Rightarrow>
          if c = CHR ''+'' then (1, cs)
          else if c = CHR ''-'' then (- 1, cs)
          else (1, s))"

definition skip_prefix16 :: "string \<Rightarrow> string" where
  "skip_prefix16 s =
     (if startswith s ''0x'' \<or> startswith s ''0X'' then
        (let t = drop 2 s in if startswith t ''_'' then drop 1 t else t)
      else s)"

definition py_int_base16 :: "string \<Rightarrow> int option" where
  "py_int_base16 s =
     (let (sign, s1) = skip_sign (dropWhile int_space s);
          s2 = skip_prefix16 s1
      in case s2 of
           [] \<Rightarrow> None
         | c # cs \<Rightarrow>
             (case hex_digit_value c of
                None \<Rightarrow> None
              | Some v \<Rightarrow>
                  (case scan_digits v cs of
                     None \<Rightarrow> None
                   | Some (n, rest) \<Rightarrow>
                       if dropWhile int_space rest = [] then Some (sign * n) else None)))"

section \<open>Transaction verifier\<close>

text \<open>
  Parsed JSON, as \<open>response.json()\<close> returns it. An object is the association list of
  its members; numbers are restricted to integers.
\<close>

datatype json =
    JNull
  | JBool bool
  | JNum int
  | JStr string
  | JArr "json list"
  | JObj "(string \<times> json) list"

text \<open>Python truthiness of a parsed JSON value.\<close>

fun truthy :: "json \<Rightarrow> bool" where
  "truthy JNull = False"
| "truthy (JBool b) = b"
| "truthy (JNum n) = (n \<noteq> 0)"
| "truthy (JStr s) = (s \<noteq> [])"
| "truthy (JArr xs) = (xs \<noteq> [])"
| "truthy (JObj kvs) = (kvs \<noteq> [])"

text \<open>
  What the call to the ledger-lookup service produced: \<open>requests.get\<close> raised; the body
  was empty; the body was not JSON; or the body parsed to a JSON value.
\<close>

datatype lookup = RequestFailed | EmptyBody | Unparseable | Parsed json

datatype verify_error =
    BadLength
  | NonHex
  | NoApiKey
  | EmptyResponse
  | InvalidResponseFormat
  | NotSentToEscrow
  | ErrorVerifying

text \<open>
  The returned dictionary. The \<open>amount\<close> entry is a two-decimal rendering of a floating
  point quotient and is not modelled; its computation is wrapped in a handler that swallows
  every exception, so it has no influence on the other fields. \<open>block_number\<close> holds the
  JSON value whose \<open>str()\<close> the source returns.
\<close>

record verify_result =
  valid :: bool
  from_address :: "string option"
  to_address :: "string option"
  block_number :: "json option"
  error :: "verify_error option"

definition invalid_result :: "verify_error \<Rightarrow> verify_result" where
  "invalid_result e =
     \<lparr>valid = False, from_address = None, to_address = None, block_number = None,
      error = Some e\<rparr>"

definition normalize_hash :: "string \<Rightarrow> string" where
  "normalize_hash tx_hash =
     (let h = strip tx_hash in if startswith h ''0x'' then h else ''0x'' @ h)"

text \<open>\<open>(tx_data.get(k) or '').lower()\<close>: a missing or falsy member gives the empty string, a
  string is lower-cased, and any other truthy value has no \<open>lower\<close> method, which raises
  (\<open>None\<close>).\<close>

definition member_lower :: "(string \<times> json) list \<Rightarrow> string \<Rightarrow> string option" where
  "member_lower tx_data k =
     (case map_of tx_data k of
        None \<Rightarrow> Some []
      | Some (JStr s) \<Rightarrow> Some (lower s)
      | Some v \<Rightarrow> if truthy v then None else Some [])"

definition check_recipient :: "string \<Rightarrow> string \<Rightarrow> string \<Rightarrow> json \<Rightarrow> verify_result" where
  "check_recipient escrow_address from_addr to_addr block =
     (if to_addr \<noteq> escrow_address then invalid_result NotSentToEscrow
      else \<lparr>valid = True, from_address = Some from_addr, to_address = Some to_addr,
            block_number = Some block, error = None\<rparr>)"

text \<open>\<open>verify_transaction_bscscan\<close>; \<open>api_key\<close> is the configured key of the lookup service
  and \<open>lk\<close> what the service call produced.\<close>

definition verify_transaction_bscscan ::
  "string \<Rightarrow> lookup \<Rightarrow> string \<Rightarrow> string \<Rightarrow> verify_result" where
  "verify_transaction_bscscan api_key lk tx_hash0 escrow_address0 =
     (let escrow_address = lower escrow_address0;
          tx_hash = normalize_hash tx_hash0
      in if length tx_hash < 32 then invalid_result BadLength
         else if py_int_base16 (remove_0x tx_hash) = None then invalid_result NonHex
         else if api_key = [] then invalid_result NoApiKey
         else
           (case lk of
              RequestFailed \<Rightarrow> invalid_result ErrorVerifying
            | EmptyBody \<Rightarrow> invalid_result EmptyResponse
            | Unparseable \<Rightarrow> invalid_result InvalidResponseFormat
            | Parsed (JObj data) \<Rightarrow>
                (case map_of data ''result'' of
                   Some (JObj (kv # kvs)) \<Rightarrow>
                     (let tx_data = kv # kvs in
                      case member_lower tx_data ''from'' of
                        None \<Rightarrow> invalid_result ErrorVerifying
                      | Some from_addr \<Rightarrow>
                          (case member_lower tx_data ''to'' of
                             None \<Rightarrow> invalid_result ErrorVerifying
                           | Some to_addr \<Rightarrow>
                               check_recipient escrow_address from_addr to_addr
                                 (case map_of tx_data ''blockNumber'' of
                                    None \<Rightarrow> JStr ''N/A''
                                  | Some b \<Rightarrow> b)))
                 | _ \<Rightarrow>
                     check_recipient escrow_address
                       (if length tx_hash > 42 then ''0x'' @ take 40 (drop 2 tx_hash)
                        else ''0x'' @ replicate 40 (CHR ''1''))
                       escrow_address (JStr ''0''))
            | Parsed _ \<Rightarrow> invalid_result ErrorVerifying))"

text \<open>A hash is well formed when it passes the verifier's two format checks.\<close>

definition well_formed_hash :: "string \<Rightarrow> bool" where
  "well_formed_hash h =
     (32 \<le> length (normalize_hash h) \<and> py_int_base16 (remove_0x (normalize_hash h)) \<noteq> None)"


section \<open>Room state of the interactive agent\<close>

text \<open>
  A Python \<open>float\<close>: a finite value, an infinity or not-a-number. \<open>float_lt x c\<close> is the
  comparison \<open>x < c\<close> against a finite constant, which is false for not-a-number.
  \<open>float_truthy\<close> is the truth value of a float in a condition.
\<close>

datatype pyfloat = Fin real | PosInf | NegInf | NaN

fun float_lt :: "pyfloat \<Rightarrow> real \<Rightarrow> bool" where
  "float_lt (Fin x) c = (x < c)"
| "float_lt NegInf c = True"
| "float_lt PosInf c = False"
| "float_lt NaN c = False"

fun float_truthy :: "pyfloat \<Rightarrow> bool" where
  "float_truthy (Fin x) = (x \<noteq> 0)"
| "float_truthy _ = True"

text \<open>
  Dictionaries whose iteration order the source relies on (it takes ``the first
  available'' amount, rate and payment method) are association lists in insertion order:
  assigning to an existing key keeps its position, a new key goes to the end.
\<close>

fun dict_set :: "'k \<Rightarrow> 'v \<Rightarrow> ('k \<times> 'v) list \<Rightarrow> ('k \<times> 'v) list" where
  "dict_set k v [] = [(k, v)]"
| "dict_set k v (p # ps) = (if fst p = k then (k, v) # ps else p # dict_set k v ps)"

definition dict_del :: "'k \<Rightarrow> ('k \<times> 'v) list \<Rightarrow> ('k \<times> 'v) list" where
  "dict_del k ps = filter (\<lambda>p. fst p \<noteq> k) ps"

definition first_value :: "('k \<times> 'v) list \<Rightarrow> 'v option" where
  "first_value ps = (case ps of [] \<Rightarrow> None | p # _ \<Rightarrow> Some (snd p))"

datatype step =
    Step1
  | Step2
  | Step3
  | Step4
  | Step5
  | Step6_buyer_address
  | Step7_seller_address
  | Deal_summary
  | Awaiting_hash

datatype role = BUYER | SELLER

datatype release_status = Waiting | Approved | Rejected

text \<open>\<open>room_initiators[chat_id]\<close>: the usernames stored under \<open>'buyer'\<close> and \<open>'seller'\<close>;
  \<open>None\<close> is a missing key or a stored \<open>None\<close>.\<close>

record initiators =
  buyer :: "string option"
  seller :: "string option"

record release_round =
  buyer_status :: release_status
  seller_status :: release_status

record deal_approval =
  buyer_approved :: bool
  seller_approved :: bool

text \<open>\<open>role_messages[chat_id]\<close>: message id, chat to send to, and the two registered
  usernames.\<close>

record role_message =
  role_msg_id :: int
  role_send_chat_id :: int
  initiator_username :: string
  counterparty_username :: string

text \<open>
  The module-level dictionaries and sets the modelled handlers read or write. Dictionaries
  that only remember message ids no modelled branch reads (\<open>step4_messages\<close>,
  \<open>step5_messages\<close>, \<open>buyer_wallet_messages\<close>, \<open>room_messages\<close>) and the database
  cache are left out.
\<close>

record bot_state =
  room_transaction_state :: "int \<rightharpoonup> step"
  user_amounts :: "(int \<times> pyfloat) list"
  user_rates :: "(int \<times> pyfloat) list"
  user_payment_methods :: "(int \<times> string) list"
  user_blockchain :: "int \<rightharpoonup> string"
  user_coins :: "int \<rightharpoonup> string"
  buyer_addresses :: "int \<rightharpoonup> string"
  seller_addresses :: "int \<rightharpoonup> string"
  room_initiators :: "int \<rightharpoonup> initiators"
  user_roles :: "int \<rightharpoonup> (string \<times> role) list"
  role_messages :: "int \<rightharpoonup> role_message"
  role_selection_sent :: "int set"
  step1_messages_sent :: "int set"
  disclaimer_sent :: "int set"
  processed_rooms :: "int set"
  rooms_waiting_for_requests :: "int set"
  room_joined_users :: "int \<rightharpoonup> string list"
  approvals :: "int \<rightharpoonup> deal_approval"
  release_approvals :: "int \<rightharpoonup> release_round"
  release_messages :: "int \<rightharpoonup> int"
  deal_summary_messages :: "int \<rightharpoonup> int"
  deposit_address_messages :: "int \<rightharpoonup> int"
  seller_wallet_messages :: "int \<rightharpoonup> int"
  room_awaiting_hash :: "int set"
  room_confirmed_deposits :: "int \<rightharpoonup> pyfloat"
  usdt_bsc_address_index :: nat
  usdc_bsc_address_index :: nat

definition initial_state :: bot_state where
  "initial_state =
     \<lparr>room_transaction_state = Map.empty, user_amounts = [], user_rates = [],
      user_payment_methods = [], user_blockchain = Map.empty, user_coins = Map.empty,
      buyer_addresses = Map.empty, seller_addresses = Map.empty,
      room_initiators = Map.empty, user_roles = Map.empty, role_messages = Map.empty,
      role_selection_sent = {}, step1_messages_sent = {}, disclaimer_sent = {},
      processed_rooms = {}, rooms_waiting_for_requests = {},
      room_joined_users = Map.empty, approvals = Map.empty,
      release_approvals = Map.empty, release_messages = Map.empty,
      deal_summary_messages = Map.empty, deposit_address_messages = Map.empty,
      seller_wallet_messages = Map.empty, room_awaiting_hash = {},
      room_confirmed_deposits = Map.empty, usdt_bsc_address_index = 0,
      usdc_bsc_address_index = 0\<rparr>"

subsection \<open>Constants\<close>

definition master_hash :: string where
  "master_hash = ''0x6f83337833118197454614dGe9168365dd3c85232dadb6bbd97f4e240eb5c7dd9''"

definition deposit_addresses_map :: "string option \<times> string option \<Rightarrow> string option" where
  "deposit_addresses_map =
     map_of
       [((Some ''BSC'', Some ''USDT''), ''0xDA4c2a5B876b0c7521e1c752690D8705080000fE''),
        ((Some ''BSC'', Some ''USDC''), ''0xDA4c2a5B876b0c7521e1c752690D8705080000fE'')]"

definition USDT_BSC_ADDRESSES :: "string list" where
  "USDT_BSC_ADDRESSES =
     [''0xDA4c2a5B876b0c7521e1c752690D8705080000fE'',
      ''0xf282e789e835ed379aea84ece204d2d643e6774f'']"

definition USDC_BSC_ADDRESSES :: "string list" where
  "USDC_BSC_ADDRESSES =
     [''0xAe6313dE2fDD754734074D8a6F4835c10827115b'',
      ''0xC941064db91dB2B54e3Acd909a7020583f05bD14'']"

definition valid_payment_methods :: "string set" where
  "valid_payment_methods =
     {''UPI'', ''CDM'', ''CCW'', ''CASH'', ''ATM'', ''CARDLESS'', ''IMPS'', ''RTGS'', ''NEFT''}"

text \<open>A room's positive id from the chat id of an update, and back.\<close>

definition original_of :: "int \<Rightarrow> int" where
  "original_of chat_id = \<bar>chat_id\<bar> - 1000000000000"

definition send_chat_of :: "int \<Rightarrow> int" where
  "send_chat_of original_chat_id = - 1000000000000 - original_chat_id"


section \<open>Messages, actions and the outside world\<close>

text \<open>
  A handler's calls to the messaging interface are recorded, in the order issued, as a list
  of actions. A message is represented by its kind and the data its text is built from.
\<close>

record deal_terms =
  terms_amount :: "pyfloat option"
  terms_rate :: "pyfloat option"
  terms_payment :: "string option"
  terms_coin :: "string option"
  terms_buyer_address :: string
  terms_seller_address :: string

datatype message =
    AmountTooLow
  | InvalidNumber
  | RateTooLow
  | InvalidPaymentMethod
  | OnlyBuyer
  | OnlySeller
  | InvalidAddressFormat
  | Step1Amount
  | Step2Rate
  | Step3Payment
  | Step4Blockchain
  | SellerWalletPrompt string
  | DealSummary deal_terms bool bool
  | DealConfirmed deal_terms
  | DepositAddress string string string
  | DepositAddressClean string string string
  | EscrowNotFound "string option" "string option"
  | AmountNotFound
  | DepositFound pyfloat "string option" "string option" string
  | PaymentReceived
  | VerificationFailed "verify_error option"
  | ErrorNotice
  | DealComplete string
  | ReleaseConfirmation release_status release_status
  | ReleaseFinal
  | RoleSelection "role option" "role option"
  | Disclaimer
  | RoomRestarted
  | OnlyInGroup
  | OnlyInDealRooms
  | NoActiveDeal
  | NotAuthorized
  | AlreadyApproved
  | ApprovedAnswer
  | DeclinedAnswer
  | RoleExpired
  | RoleTaken role
  | RoleSelected role
  | HashRequest string
  | OnlySellerConfirms
  | PaymentMarked
  | ErrorAnswer

text \<open>
  \<open>Reply\<close> is \<open>update.message.reply_text\<close>; \<open>Send\<close> is \<open>bot.send_message\<close> or
  \<open>bot.send_photo\<close> to a chat; \<open>Edit_caption\<close> carries the chat, the message id, the new
  caption and whether the inline buttons are kept; \<open>Answer\<close> is \<open>query.answer\<close> with its
  \<open>show_alert\<close> flag.
\<close>

datatype action =
    Reply message
  | Send int message
  | Delete_message
  | Edit_caption int int message bool
  | Edit_own_caption message bool
  | Pin_message int
  | Answer message bool

text \<open>
  The result of a send the source guards with an exception handler: the message went out
  with an id, the call raised a time-out, or it raised something else.
\<close>

datatype send_outcome = Sent int | TimedOut | Failed

text \<open>
  What the environment contributes to one handler run: Python's \<open>float()\<close> on text
  (\<open>None\<close> for \<open>ValueError\<close>), the outcome of each guarded send, whether the edit of the
  pressed message succeeds, the configured lookup key and what the ledger lookup returns.
  Replies and answers to the update itself (\<open>reply_text\<close>, \<open>query.answer\<close>) are taken to
  return;
  edits and deletions whose failure the source swallows have no parameter.
\<close>

record world =
  float_of :: "string \<Rightarrow> pyfloat option"
  send_result :: "message \<Rightarrow> send_outcome"
  edit_result :: bool
  api_key :: string
  ledger :: lookup

datatype completion = Returned | Raised

type_synonym outcome = "completion \<times> bot_state \<times> action list"

text \<open>An incoming text message.\<close>

record text_update =
  from_user_id :: int
  from_username :: "string option"
  message_text :: string
  update_chat_id :: int

section \<open>Text handler\<close>

definition truthy_name :: "string option \<Rightarrow> bool" where
  "truthy_name n = (case n of None \<Rightarrow> False | Some s \<Rightarrow> s \<noteq> [])"

definition send_step2_rate_message :: "world \<Rightarrow> bot_state \<Rightarrow> int \<Rightarrow> bot_state \<times> action list" where
  "send_step2_rate_message w st chat =
     (if room_transaction_state st chat \<noteq> Some Step1 then (st, [])
      else
        (case send_result w Step2Rate of
           Failed \<Rightarrow> (st, [Send (send_chat_of chat) Step2Rate])
         | _ \<Rightarrow>
             (st\<lparr>room_transaction_state := (room_transaction_state st)(chat \<mapsto> Step2)\<rparr>,
              [Send (send_chat_of chat) Step2Rate])))"

definition summary_terms :: "bot_state \<Rightarrow> int \<Rightarrow> deal_terms" where
  "summary_terms st chat =
     \<lparr>terms_amount =
        (case user_roles st chat of
           None \<Rightarrow> None
         | Some roles \<Rightarrow> if roles = [] then None else first_value (user_amounts st)),
      terms_rate = first_value (user_rates st),
      terms_payment = first_value (user_payment_methods st),
      terms_coin = user_coins st chat,
      terms_buyer_address = (case buyer_addresses st chat of None \<Rightarrow> ''N/A'' | Some a \<Rightarrow> a),
      terms_seller_address = (case seller_addresses st chat of None \<Rightarrow> ''N/A'' | Some a \<Rightarrow> a)\<rparr>"

definition send_deal_summary_message :: "world \<Rightarrow> bot_state \<Rightarrow> int \<Rightarrow> bot_state \<times> action list" where
  "send_deal_summary_message w st chat =
     (let m = DealSummary (summary_terms st chat) False False in
      case send_result w m of
        Sent mid \<Rightarrow>
          (st\<lparr>deal_summary_messages := (deal_summary_messages st)(chat \<mapsto> mid),
              approvals := (approvals st)(chat \<mapsto> \<lparr>buyer_approved = False, seller_approved = False\<rparr>)\<rparr>,
           [Send (send_chat_of chat) m])
      | _ \<Rightarrow> (st, [Send (send_chat_of chat) m]))"

text \<open>
  The sender check of the two address steps. The sender's username is dereferenced only
  when the room has a non-empty holder recorded; a sender without a username then raises.
\<close>

datatype verdict = Allowed | Denied | Crashed

definition holder_check :: "initiators option \<Rightarrow> (initiators \<Rightarrow> string option) \<Rightarrow> string option \<Rightarrow> verdict" where
  "holder_check ini who sender =
     (case ini of
        None \<Rightarrow> Allowed
      | Some i \<Rightarrow>
          (case who i of
             None \<Rightarrow> Allowed
           | Some holder \<Rightarrow>
               if holder = [] then Allowed
               else
                 (case sender of
                    None \<Rightarrow> Crashed
                  | Some name \<Rightarrow> if lower name \<noteq> lower holder then Denied else Allowed)))"

definition address_format_ok :: "string \<Rightarrow> bool" where
  "address_format_ok t =
     (startswith t ''0x'' \<and> length t = 42 \<and> py_int_base16 (drop 2 t) \<noteq> None)"


subsection \<open>Reading the hash out of the message\<close>

text \<open>\<open>sub in s\<close> and \<open>s.split(sep)\<close> for a non-empty separator.\<close>

fun contains :: "string \<Rightarrow> string \<Rightarrow> bool" where
  "contains [] sub = (sub = [])"
| "contains (c # cs) sub = (startswith (c # cs) sub \<or> contains cs sub)"

function split_from :: "string \<Rightarrow> string \<Rightarrow> string \<Rightarrow> string list" where
  "split_from sep cur [] = [rev cur]"
| "split_from sep cur (c # cs) =
     (if startswith (c # cs) sep then rev cur # split_from sep [] (drop (length sep - 1) cs)
      else split_from sep (c # cur) cs)"
  by pat_completeness auto
termination
  by (relation "measure (\<lambda>(sep, cur, s). length s)") auto

definition split_str :: "string \<Rightarrow> string \<Rightarrow> string list" where
  "split_str s sep = split_from sep [] s"

definition extract_hash :: "string \<Rightarrow> string" where
  "extract_hash tx_input =
     (if contains tx_input ''bscscan.com/tx/'' \<or> contains tx_input ''etherscan.io/tx/''
      then strip (hd (split_str (last (split_str tx_input ''tx/'')) ''?''))
      else tx_input)"

subsection \<open>The awaiting-hash step\<close>

text \<open>The step's exception handler sends an error notice to the room. That send is not
  guarded: when it raises too, the text handler raises.\<close>

definition error_notice :: "world \<Rightarrow> int \<Rightarrow> completion \<times> action list" where
  "error_notice w chat =
     (case send_result w ErrorNotice of
        Sent _ \<Rightarrow> (Returned, [Send chat ErrorNotice])
      | _ \<Rightarrow> (Raised, [Send chat ErrorNotice]))"

text \<open>A send inside the step's \<open>try\<close> block, after which the handler returns: when the send
  raises, the exception handler takes over.\<close>

definition notice :: "world \<Rightarrow> bot_state \<Rightarrow> action list \<Rightarrow> int \<Rightarrow> message \<Rightarrow> outcome" where
  "notice w st issued chat m =
     (case send_result w m of
        Sent _ \<Rightarrow> (Returned, st, issued @ [Send chat m])
      | _ \<Rightarrow>
          (let (c, acts) = error_notice w chat in (c, st, issued @ Send chat m # acts)))"

text \<open>The part shared by the master-hash path and the verified path: announce the deposit,
  record it, strip the button from the deposit prompt, announce receipt and clear the
  awaiting-hash state. The last send is guarded only by the step's handler, so the state is
  cleared only if it returns.\<close>

definition confirm_deposit ::
  "world \<Rightarrow> bot_state \<Rightarrow> int \<Rightarrow> pyfloat \<Rightarrow> string option \<Rightarrow> string option \<Rightarrow> string \<Rightarrow> string \<Rightarrow> outcome" where
  "confirm_deposit w st chat amount seller_addr to_addr tx_hash escrow_address =
     (let send_chat = send_chat_of chat;
          found = [Send send_chat (DepositFound amount seller_addr to_addr tx_hash)];
          st1 = st\<lparr>room_confirmed_deposits := (room_confirmed_deposits st)(chat \<mapsto> amount)\<rparr>;
          strip_button =
            (case deposit_address_messages st chat of
               None \<Rightarrow> []
             | Some msg_id \<Rightarrow>
                 [Edit_caption send_chat msg_id
                    (DepositAddressClean
                       (case user_coins st chat of None \<Rightarrow> ''USDT'' | Some c \<Rightarrow> c)
                       (case user_blockchain st chat of None \<Rightarrow> ''BSC'' | Some b \<Rightarrow> b)
                       escrow_address)
                    False])
      in case send_result w PaymentReceived of
           Sent _ \<Rightarrow>
             (Returned,
              st1\<lparr>room_awaiting_hash := room_awaiting_hash st1 - {chat},
                  room_transaction_state := (room_transaction_state st1)(chat := None)\<rparr>,
              Delete_message # found @ strip_button @ [Send send_chat PaymentReceived])
         | _ \<Rightarrow>
             (let (c, acts) = error_notice w send_chat in
              (c, st1,
               Delete_message # found @ strip_button @ Send send_chat PaymentReceived # acts)))"

definition handle_hash :: "world \<Rightarrow> bot_state \<Rightarrow> text_update \<Rightarrow> int \<Rightarrow> outcome" where
  "handle_hash w st u chat =
     (let send_chat = send_chat_of chat;
          tx_hash = extract_hash (strip (message_text u));
          blockchain = user_blockchain st chat;
          coin = user_coins st chat
      in case deposit_addresses_map (blockchain, coin) of
           None \<Rightarrow>
             notice w st [Delete_message] send_chat (EscrowNotFound blockchain coin)
         | Some escrow_address \<Rightarrow>
             if escrow_address = [] then
               notice w st [Delete_message] send_chat (EscrowNotFound blockchain coin)
             else
               (case first_value (user_amounts st) of
                  None \<Rightarrow> notice w st [Delete_message] send_chat AmountNotFound
                | Some amount \<Rightarrow>
                    if \<not> float_truthy amount then
                      notice w st [Delete_message] send_chat AmountNotFound
                    else if lower tx_hash = lower master_hash then
                      confirm_deposit w st chat amount
                        (Some (case seller_addresses st chat of
                                 None \<Rightarrow> ''0x'' @ replicate 40 (CHR ''0'')
                               | Some a \<Rightarrow> a))
                        (Some escrow_address) tx_hash escrow_address
                    else
                      (let verify_result =
                             verify_transaction_bscscan (api_key w) (ledger w) tx_hash escrow_address
                       in if valid verify_result then
                            confirm_deposit w st chat amount
                              (case seller_addresses st chat of
                                 None \<Rightarrow> from_address verify_result
                               | Some a \<Rightarrow> Some a)
                              (to_address verify_result) tx_hash escrow_address
                          else
                            notice w st [Delete_message] send_chat
                              (VerificationFailed (error verify_result)))))"

subsection \<open>The negotiation steps\<close>

definition handle_amount :: "world \<Rightarrow> bot_state \<Rightarrow> text_update \<Rightarrow> int \<Rightarrow> outcome" where
  "handle_amount w st u chat =
     (case float_of w (message_text u) of
        None \<Rightarrow> (Returned, st, [Reply InvalidNumber])
      | Some amount \<Rightarrow>
          if float_lt amount 1 then (Returned, st, [Reply AmountTooLow])
          else
            (let st1 = st\<lparr>user_amounts := dict_set (from_user_id u) amount (user_amounts st)\<rparr>;
                 (st2, acts) = send_step2_rate_message w st1 chat
             in (Returned, st2, acts)))"

definition handle_rate :: "world \<Rightarrow> bot_state \<Rightarrow> text_update \<Rightarrow> int \<Rightarrow> outcome" where
  "handle_rate w st u chat =
     (case float_of w (message_text u) of
        None \<Rightarrow> (Returned, st, [Reply InvalidNumber])
      | Some rate \<Rightarrow>
          if float_lt rate 85 then (Returned, st, [Reply RateTooLow])
          else
            (Returned,
             st\<lparr>user_rates := dict_set (from_user_id u) rate (user_rates st),
                room_transaction_state := (room_transaction_state st)(chat \<mapsto> Step3)\<rparr>,
             [Send (send_chat_of chat) Step3Payment]))"

text \<open>The payment methods are ASCII words, so an upper-case text with a character outside
  the model is outside the fixed set.\<close>

definition handle_payment_method :: "bot_state \<Rightarrow> text_update \<Rightarrow> int \<Rightarrow> outcome" where
  "handle_payment_method st u chat =
     (case upper (message_text u) of
        None \<Rightarrow> (Returned, st, [Reply InvalidPaymentMethod])
      | Some payment_method_upper \<Rightarrow>
          if payment_method_upper \<notin> valid_payment_methods then
            (Returned, st, [Reply InvalidPaymentMethod])
          else
            (Returned,
             st\<lparr>user_payment_methods :=
                   dict_set (from_user_id u) payment_method_upper (user_payment_methods st),
                room_transaction_state := (room_transaction_state st)(chat \<mapsto> Step4)\<rparr>,
             [Send (send_chat_of chat) Step4Blockchain]))"

definition handle_buyer_address :: "world \<Rightarrow> bot_state \<Rightarrow> text_update \<Rightarrow> int \<Rightarrow> outcome" where
  "handle_buyer_address w st u chat =
     (case holder_check (room_initiators st chat) buyer (from_username u) of
        Crashed \<Rightarrow> (Raised, st, [])
      | Denied \<Rightarrow> (Returned, st, [Reply OnlyBuyer])
      | Allowed \<Rightarrow>
          if \<not> address_format_ok (message_text u) then
            (Returned, st, [Reply InvalidAddressFormat])
          else
            (let st1 = st\<lparr>buyer_addresses := (buyer_addresses st)(chat \<mapsto> message_text u),
                          room_transaction_state :=
                            (room_transaction_state st)(chat \<mapsto> Step7_seller_address)\<rparr>
             in case (case room_initiators st chat of None \<Rightarrow> None | Some i \<Rightarrow> seller i) of
                  None \<Rightarrow> (Returned, st1, [])
                | Some seller_username \<Rightarrow>
                    if seller_username = [] then (Returned, st1, [])
                    else
                      (case send_result w (SellerWalletPrompt seller_username) of
                         Sent msg_id \<Rightarrow>
                           (Returned,
                            st1\<lparr>seller_wallet_messages :=
                                  (seller_wallet_messages st1)(chat \<mapsto> msg_id)\<rparr>,
                            [Send (send_chat_of chat) (SellerWalletPrompt seller_username)])
                       | _ \<Rightarrow>
                           (Returned, st1,
                            [Send (send_chat_of chat) (SellerWalletPrompt seller_username)]))))"

definition handle_seller_address :: "world \<Rightarrow> bot_state \<Rightarrow> text_update \<Rightarrow> int \<Rightarrow> outcome" where
  "handle_seller_address w st u chat =
     (case holder_check (room_initiators st chat) seller (from_username u) of
        Crashed \<Rightarrow> (Raised, st, [])
      | Denied \<Rightarrow> (Returned, st, [Reply OnlySeller])
      | Allowed \<Rightarrow>
          if \<not> address_format_ok (message_text u) then
            (Returned, st, [Reply InvalidAddressFormat])
          else
            (let st1 = st\<lparr>seller_addresses := (seller_addresses st)(chat \<mapsto> message_text u)\<rparr>;
                 (st2, acts) = send_deal_summary_message w st1 chat
             in (Returned,
                 st2\<lparr>room_transaction_state :=
                       (room_transaction_state st2)(chat \<mapsto> Deal_summary)\<rparr>,
                 acts)))"

text \<open>
  \<open>handle_text\<close> for a message in a group: the branch is chosen by the room's step.
  \<open>None\<close> means that control leaves the room logic (a private chat, or a room in no
  text-accepting step) and reaches the listing sub-flow, which is not modelled.
\<close>

definition handle_text :: "world \<Rightarrow> bot_state \<Rightarrow> text_update \<Rightarrow> outcome option" where
  "handle_text w st u =
     (if update_chat_id u > 0 then None
      else
        (let original_chat_id = original_of (update_chat_id u) in
         case room_transaction_state st original_chat_id of
           Some Step1 \<Rightarrow> Some (handle_amount w st u original_chat_id)
         | Some Step2 \<Rightarrow> Some (handle_rate w st u original_chat_id)
         | Some Step3 \<Rightarrow> Some (handle_payment_method st u original_chat_id)
         | Some Step6_buyer_address \<Rightarrow> Some (handle_buyer_address w st u original_chat_id)
         | Some Step7_seller_address \<Rightarrow> Some (handle_seller_address w st u original_chat_id)
         | Some Awaiting_hash \<Rightarrow> Some (handle_hash w st u original_chat_id)
         | _ \<Rightarrow> None))"


section \<open>Button handler\<close>

text \<open>
  A button press. The callback data is a string the bot itself writes
  (\<open>approve_release_<room>\<close>, \<open>role_buyer_<room>_<name>\<close>, ...); the model starts from the
  parsed form, the kind of button and the room id read from the third field. \<open>presser\<close> is
  the username of the user who pressed, or the first name of a user without one.
\<close>

datatype button =
    Approve_release int
  | Decline_release int
  | Approve_deal int
  | Role_buyer int
  | Role_seller int
  | Payment_sent int

record callback_query =
  presser :: string
  pressed :: button

datatype party = Buyer_party | Seller_party

definition party_of :: "string option \<Rightarrow> string option \<Rightarrow> string \<Rightarrow> party option" where
  "party_of buyer_username seller_username username =
     (if truthy_name buyer_username \<and> Some (lower username) = map_option lower buyer_username
      then Some Buyer_party
      else if truthy_name seller_username \<and> Some (lower username) = map_option lower seller_username
      then Some Seller_party
      else None)"

definition room_buyer :: "bot_state \<Rightarrow> int \<Rightarrow> string option" where
  "room_buyer st chat = (case room_initiators st chat of None \<Rightarrow> None | Some i \<Rightarrow> buyer i)"

definition room_seller :: "bot_state \<Rightarrow> int \<Rightarrow> string option" where
  "room_seller st chat = (case room_initiators st chat of None \<Rightarrow> None | Some i \<Rightarrow> seller i)"

subsection \<open>Release approval\<close>

definition set_status :: "party \<Rightarrow> release_status \<Rightarrow> release_round \<Rightarrow> release_round" where
  "set_status p s r =
     (case p of Buyer_party \<Rightarrow> r\<lparr>buyer_status := s\<rparr> | Seller_party \<Rightarrow> r\<lparr>seller_status := s\<rparr>)"

definition current_round :: "bot_state \<Rightarrow> int \<Rightarrow> release_round" where
  "current_round st chat =
     (case release_approvals st chat of
        None \<Rightarrow> \<lparr>buyer_status = Waiting, seller_status = Waiting\<rparr>
      | Some r \<Rightarrow> r)"

definition approve_release :: "bot_state \<Rightarrow> string \<Rightarrow> int \<Rightarrow> bot_state \<times> action list" where
  "approve_release st username original_chat_id =
     (let send_chat_id = send_chat_of original_chat_id in
      case party_of (room_buyer st original_chat_id) (room_seller st original_chat_id) username of
        None \<Rightarrow> (st, [Answer NotAuthorized True])
      | Some user_role \<Rightarrow>
          (let r = set_status user_role Approved (current_round st original_chat_id);
               st1 = st\<lparr>release_approvals := (release_approvals st)(original_chat_id \<mapsto> r)\<rparr>;
               both_approved = (buyer_status r = Approved \<and> seller_status r = Approved)
           in if both_approved then
                (st1,
                 Send send_chat_id
                   (DealComplete
                      (case buyer_addresses st original_chat_id of
                         None \<Rightarrow> ''0xUnknown''
                       | Some a \<Rightarrow> a)) #
                 (case release_messages st original_chat_id of
                    None \<Rightarrow> []
                  | Some msg_id \<Rightarrow> [Edit_caption send_chat_id msg_id ReleaseFinal False]) @
                 [Answer ApprovedAnswer False])
              else
                (st1,
                 (case release_messages st original_chat_id of
                    None \<Rightarrow> []
                  | Some msg_id \<Rightarrow>
                      [Edit_caption send_chat_id msg_id
                         (ReleaseConfirmation (buyer_status r) (seller_status r)) True]) @
                 [Answer ApprovedAnswer False])))"

definition decline_release :: "bot_state \<Rightarrow> string \<Rightarrow> int \<Rightarrow> bot_state \<times> action list" where
  "decline_release st username original_chat_id =
     (let send_chat_id = send_chat_of original_chat_id in
      case party_of (room_buyer st original_chat_id) (room_seller st original_chat_id) username of
        None \<Rightarrow> (st, [Answer NotAuthorized True])
      | Some user_role \<Rightarrow>
          (let r = set_status user_role Rejected (current_round st original_chat_id);
               st1 = st\<lparr>release_approvals := (release_approvals st)(original_chat_id \<mapsto> r)\<rparr>
           in (st1,
               (case release_messages st original_chat_id of
                  None \<Rightarrow> []
                | Some msg_id \<Rightarrow>
                    [Edit_caption send_chat_id msg_id
                       (ReleaseConfirmation (buyer_status r) (seller_status r)) True]) @
               [Answer DeclinedAnswer False])))"

subsection \<open>Deal approval and the deposit prompt\<close>

text \<open>The deposit address shown to the room, with the rotation counters advanced. \<open>None\<close>
  is an index outside the list, which raises in the source.\<close>

definition next_deposit_address :: "bot_state \<Rightarrow> string \<Rightarrow> string \<Rightarrow> (string \<times> bot_state) option" where
  "next_deposit_address st blockchain coin_type =
     (if blockchain = ''BSC'' \<and> coin_type = ''USDT'' then
        (let current_index = usdt_bsc_address_index st in
         if current_index < length USDT_BSC_ADDRESSES then
           Some (USDT_BSC_ADDRESSES ! current_index,
                 st\<lparr>usdt_bsc_address_index :=
                       (usdt_bsc_address_index st + 1) mod length USDT_BSC_ADDRESSES\<rparr>)
         else None)
      else if blockchain = ''BSC'' \<and> coin_type = ''USDC'' then
        (let current_index = usdc_bsc_address_index st in
         if current_index < length USDC_BSC_ADDRESSES then
           Some (USDC_BSC_ADDRESSES ! current_index,
                 st\<lparr>usdc_bsc_address_index :=
                       (usdc_bsc_address_index st + 1) mod length USDC_BSC_ADDRESSES\<rparr>)
         else None)
      else
        Some (case deposit_addresses_map (Some blockchain, Some coin_type) of
                None \<Rightarrow> ''0xDA4c2a5B876b0c7521e1c752690D8705080000fE''
              | Some a \<Rightarrow> a,
              st))"

definition approval_terms :: "bot_state \<Rightarrow> int \<Rightarrow> deal_terms" where
  "approval_terms st chat =
     \<lparr>terms_amount = first_value (user_amounts st),
      terms_rate = first_value (user_rates st),
      terms_payment = first_value (user_payment_methods st),
      terms_coin = user_coins st chat,
      terms_buyer_address = (case buyer_addresses st chat of None \<Rightarrow> ''N/A'' | Some a \<Rightarrow> a),
      terms_seller_address = (case seller_addresses st chat of None \<Rightarrow> ''N/A'' | Some a \<Rightarrow> a)\<rparr>"

text \<open>What follows the second approval: the confirmation is sent and pinned, then the
  deposit prompt with the next address. If the confirmation cannot be sent, nothing else
  happens.\<close>

definition send_deal_confirmed :: "world \<Rightarrow> bot_state \<Rightarrow> int \<Rightarrow> bot_state \<times> action list" where
  "send_deal_confirmed w st chat =
     (let send_chat_id = send_chat_of chat;
          confirmed = DealConfirmed (approval_terms st chat)
      in case send_result w confirmed of
           Sent confirmed_id \<Rightarrow>
             (let blockchain = (case user_blockchain st chat of None \<Rightarrow> ''BSC'' | Some b \<Rightarrow> b);
                  coin_type =
                    (case user_coins st chat of
                       None \<Rightarrow> ''USDT''
                     | Some c \<Rightarrow> if c = [] then ''USDT'' else c)
              in case next_deposit_address st blockchain coin_type of
                   None \<Rightarrow> (st, [Send send_chat_id confirmed, Pin_message confirmed_id])
                 | Some (deposit_address, st1) \<Rightarrow>
                     (let prompt = DepositAddress coin_type blockchain deposit_address in
                      case send_result w prompt of
                        Sent msg_id \<Rightarrow>
                          (st1\<lparr>deposit_address_messages :=
                                 (deposit_address_messages st1)(chat \<mapsto> msg_id)\<rparr>,
                           [Send send_chat_id confirmed, Pin_message confirmed_id,
                            Send send_chat_id prompt])
                      | _ \<Rightarrow>
                          (st1,
                           [Send send_chat_id confirmed, Pin_message confirmed_id,
                            Send send_chat_id prompt])))
         | _ \<Rightarrow> (st, [Send send_chat_id confirmed]))"

definition approve_deal :: "world \<Rightarrow> bot_state \<Rightarrow> string \<Rightarrow> int \<Rightarrow> bot_state \<times> action list" where
  "approve_deal w st username chat_id =
     (case party_of (room_buyer st chat_id) (room_seller st chat_id) username of
        None \<Rightarrow> (st, [Answer NotAuthorized True])
      | Some user_role \<Rightarrow>
          (let a0 = (case approvals st chat_id of
                       None \<Rightarrow> \<lparr>buyer_approved = False, seller_approved = False\<rparr>
                     | Some a \<Rightarrow> a)
           in if (case user_role of Buyer_party \<Rightarrow> buyer_approved a0
                                  | Seller_party \<Rightarrow> seller_approved a0)
              then (st, [Answer AlreadyApproved True])
              else
                (let a1 = (case user_role of Buyer_party \<Rightarrow> a0\<lparr>buyer_approved := True\<rparr>
                                           | Seller_party \<Rightarrow> a0\<lparr>seller_approved := True\<rparr>);
                     st1 = st\<lparr>approvals := (approvals st)(chat_id \<mapsto> a1)\<rparr>;
                     both_approved = (buyer_approved a1 \<and> seller_approved a1);
                     (st2, acts) = (if both_approved then send_deal_confirmed w st1 chat_id
                                    else (st1, []))
                 in (st2,
                     acts @
                     (case deal_summary_messages st chat_id of
                        None \<Rightarrow> []
                      | Some msg_id \<Rightarrow>
                          [Edit_caption (send_chat_of chat_id) msg_id
                             (DealSummary (approval_terms st chat_id)
                                (buyer_approved a1) (seller_approved a1))
                             (\<not> both_approved)]) @
                     [Answer ApprovedAnswer False]))))"

subsection \<open>Role selection\<close>

definition send_step1_amount_message :: "world \<Rightarrow> bot_state \<Rightarrow> int \<Rightarrow> int \<Rightarrow> bot_state \<times> action list" where
  "send_step1_amount_message w st send_chat_id chat_id =
     (if chat_id \<in> step1_messages_sent st then (st, [])
      else
        (let st1 = st\<lparr>step1_messages_sent := insert chat_id (step1_messages_sent st)\<rparr> in
         case send_result w Step1Amount of
           Failed \<Rightarrow> (st1, [Send send_chat_id Step1Amount])
         | _ \<Rightarrow>
             (st1\<lparr>room_transaction_state := (room_transaction_state st1)(chat_id \<mapsto> Step1)\<rparr>,
              [Send send_chat_id Step1Amount])))"

definition select_role :: "world \<Rightarrow> bot_state \<Rightarrow> string \<Rightarrow> role \<Rightarrow> int \<Rightarrow> bot_state \<times> action list" where
  "select_role w st username role_type original_chat_id =
     (case role_messages st original_chat_id of
        None \<Rightarrow> (st, [Answer RoleExpired True])
      | Some rm \<Rightarrow>
          (let username_lower = lower username;
               initiator_lower = lower (initiator_username rm);
               counterparty_lower = lower (counterparty_username rm);
               roles0 = (case user_roles st original_chat_id of None \<Rightarrow> [] | Some r \<Rightarrow> r);
               st0 = st\<lparr>user_roles := (user_roles st)(original_chat_id \<mapsto> roles0)\<rparr>
           in if (map_of roles0 counterparty_lower = Some role_type \<and> username_lower = initiator_lower)
                 \<or> (map_of roles0 initiator_lower = Some role_type \<and> username_lower = counterparty_lower)
              then (st0, [Answer (RoleTaken role_type) True])
              else
                (let roles1 = dict_set username_lower role_type roles0;
                     st1 = st\<lparr>user_roles := (user_roles st)(original_chat_id \<mapsto> roles1)\<rparr>;
                     initiator_role = map_of roles1 initiator_lower;
                     counterparty_role = map_of roles1 counterparty_lower;
                     both_selected = (initiator_role \<noteq> None \<and> counterparty_role \<noteq> None);
                     edit = Edit_own_caption (RoleSelection initiator_role counterparty_role)
                              (\<not> both_selected)
                 in if \<not> edit_result w then (st1, [edit, Answer ErrorAnswer True])
                    else if both_selected \<and> original_chat_id \<notin> step1_messages_sent st1 then
                      (let (st2, acts) =
                             send_step1_amount_message w st1 (role_send_chat_id rm) original_chat_id
                       in (st2, [edit, Answer (RoleSelected role_type) False] @ acts))
                    else (st1, [edit, Answer (RoleSelected role_type) False]))))"

subsection \<open>Payment sent\<close>

definition payment_sent :: "world \<Rightarrow> bot_state \<Rightarrow> string \<Rightarrow> int \<Rightarrow> bot_state \<times> action list" where
  "payment_sent w st username chat_id =
     (case room_seller st chat_id of
        None \<Rightarrow> (st, [Answer OnlySellerConfirms True])
      | Some seller_username \<Rightarrow>
          if seller_username = [] \<or> lower username \<noteq> lower seller_username then
            (st, [Answer OnlySellerConfirms True])
          else
            (case send_result w (HashRequest seller_username) of
               Sent _ \<Rightarrow>
                 (st\<lparr>room_awaiting_hash := insert chat_id (room_awaiting_hash st),
                     room_transaction_state :=
                       (room_transaction_state st)(chat_id \<mapsto> Awaiting_hash)\<rparr>,
                  [Send (send_chat_of chat_id) (HashRequest seller_username),
                   Answer PaymentMarked False])
             | _ \<Rightarrow>
                 (st,
                  [Send (send_chat_of chat_id) (HashRequest seller_username),
                   Answer ErrorAnswer True])))"

text \<open>\<open>button_callback\<close> on the buttons of the deal rooms.\<close>

definition button_callback :: "world \<Rightarrow> bot_state \<Rightarrow> callback_query \<Rightarrow> bot_state \<times> action list" where
  "button_callback w st query =
     (case pressed query of
        Approve_release chat \<Rightarrow> approve_release st (presser query) chat
      | Decline_release chat \<Rightarrow> decline_release st (presser query) chat
      | Approve_deal chat \<Rightarrow> approve_deal w st (presser query) chat
      | Role_buyer chat \<Rightarrow> select_role w st (presser query) BUYER chat
      | Role_seller chat \<Rightarrow> select_role w st (presser query) SELLER chat
      | Payment_sent chat \<Rightarrow> payment_sent w st (presser query) chat)"

section \<open>Commands\<close>

datatype chat_type = Private | Group | Supergroup | Channel

record command_update =
  command_chat_type :: chat_type
  command_chat_id :: int

definition in_group :: "command_update \<Rightarrow> bool" where
  "in_group u = (command_chat_type u = Group \<or> command_chat_type u = Supergroup)"

subsection \<open>\<open>/release\<close>\<close>

definition release_command :: "world \<Rightarrow> bot_state \<Rightarrow> command_update \<Rightarrow> bot_state \<times> action list" where
  "release_command w st u =
     (if \<not> in_group u then (st, [Send (command_chat_id u) OnlyInGroup])
      else
        (let chat_id = command_chat_id u;
             original_chat_id = original_of chat_id
         in case room_initiators st original_chat_id of
              None \<Rightarrow> (st, [Delete_message, Send chat_id NoActiveDeal])
            | Some i \<Rightarrow>
                (let st1 = st\<lparr>release_approvals :=
                               (release_approvals st)
                                 (original_chat_id \<mapsto>
                                    \<lparr>buyer_status = Waiting, seller_status = Waiting\<rparr>)\<rparr>;
                     prompt = ReleaseConfirmation Waiting Waiting
                 in case send_result w prompt of
                      Sent msg_id \<Rightarrow>
                        (st1\<lparr>release_messages := (release_messages st1)(original_chat_id \<mapsto> msg_id)\<rparr>,
                         [Delete_message, Send (send_chat_of original_chat_id) prompt])
                    | _ \<Rightarrow> (st1, [Delete_message, Send (send_chat_of original_chat_id) prompt]))))"

subsection \<open>\<open>/restart\<close>\<close>

text \<open>
  The room registry file written by the provisioning agent, as the list of its entries;
  an entry's key is the room id. \<open>None\<close> for the registry means the file does not exist.
\<close>

record room_info =
  room_name :: string
  registered_initiator :: string
  registered_counterparty :: string

type_synonym registry = "(int \<times> room_info) list"

definition find_room :: "registry \<Rightarrow> int \<Rightarrow> (int \<times> room_info) option" where
  "find_room deal_rooms chat_id =
     List.find (\<lambda>(room_id, info). room_id = chat_id \<or> - 1000000000000 - room_id = chat_id)
       deal_rooms"

text \<open>A Python set of two names, listed without repetition; the order of the list stands
  for the set's iteration order.\<close>

definition name_set :: "string \<Rightarrow> string \<Rightarrow> string list" where
  "name_set a b = (if a = b then [a] else [a, b])"

definition send_role_selection_message ::
  "world \<Rightarrow> bot_state \<Rightarrow> int \<Rightarrow> room_info option \<Rightarrow> int \<Rightarrow> bot_state \<times> action list" where
  "send_role_selection_message w st send_chat_id info original_chat_id =
     (if original_chat_id \<in> role_selection_sent st then (st, [])
      else
        (let st1 = st\<lparr>role_selection_sent := insert original_chat_id (role_selection_sent st)\<rparr> in
         case room_joined_users st1 original_chat_id of
           None \<Rightarrow> (st1, [])
         | Some joined_usernames \<Rightarrow>
             if length joined_usernames < 2 then (st1, [])
             else
               (let initiator = (case info of None \<Rightarrow> joined_usernames ! 0
                                 | Some i \<Rightarrow> registered_initiator i);
                    counterparty = (case info of None \<Rightarrow> joined_usernames ! 1
                                    | Some i \<Rightarrow> registered_counterparty i);
                    st2 = st1\<lparr>user_roles :=
                                (user_roles st1)
                                  (original_chat_id \<mapsto>
                                     (case user_roles st1 original_chat_id of
                                        None \<Rightarrow> []
                                      | Some r \<Rightarrow> r))\<rparr>
                in case send_result w (RoleSelection None None) of
                     Sent msg_id \<Rightarrow>
                       (st2\<lparr>role_messages :=
                              (role_messages st2)
                                (original_chat_id \<mapsto>
                                   \<lparr>role_msg_id = msg_id, role_send_chat_id = send_chat_id,
                                    initiator_username = initiator,
                                    counterparty_username = counterparty\<rparr>)\<rparr>,
                        [Send send_chat_id (RoleSelection None None)])
                   | _ \<Rightarrow> (st2, [Send send_chat_id (RoleSelection None None)]))))"

definition send_disclaimer_message ::
  "world \<Rightarrow> bot_state \<Rightarrow> int \<Rightarrow> room_info option \<Rightarrow> int \<Rightarrow> bot_state \<times> action list" where
  "send_disclaimer_message w st send_chat_id info original_chat_id =
     (case send_result w Disclaimer of
        Sent _ \<Rightarrow>
          (let (st1, acts) = send_role_selection_message w st send_chat_id info original_chat_id
           in (st1, Send send_chat_id Disclaimer # acts))
      | _ \<Rightarrow> (st, [Send send_chat_id Disclaimer]))"

text \<open>The clearing of room state in \<open>/restart\<close>. The per-user dictionaries are cleared for
  every user id that has an amount stored.\<close>

definition clear_room_state :: "bot_state \<Rightarrow> int \<Rightarrow> int \<Rightarrow> room_info option \<Rightarrow> bot_state" where
  "clear_room_state st chat_id original_chat_id info =
     (let users_to_clear = map fst (user_amounts st);
          st1 = st\<lparr>disclaimer_sent := disclaimer_sent st - {original_chat_id},
                   role_selection_sent := role_selection_sent st - {original_chat_id},
                   processed_rooms := processed_rooms st - {chat_id} - {original_chat_id},
                   rooms_waiting_for_requests :=
                     rooms_waiting_for_requests st - {chat_id} - {original_chat_id},
                   room_awaiting_hash := room_awaiting_hash st - {original_chat_id},
                   room_transaction_state := (room_transaction_state st)(original_chat_id := None),
                   seller_addresses := (seller_addresses st)(original_chat_id := None),
                   release_approvals := (release_approvals st)(original_chat_id := None),
                   deposit_address_messages :=
                     (deposit_address_messages st)(original_chat_id := None),
                   seller_wallet_messages := (seller_wallet_messages st)(original_chat_id := None),
                   user_amounts := fold dict_del users_to_clear (user_amounts st),
                   user_rates := fold dict_del users_to_clear (user_rates st),
                   user_payment_methods := fold dict_del users_to_clear (user_payment_methods st),
                   user_coins := (user_coins st)(original_chat_id := None),
                   user_blockchain := (user_blockchain st)(original_chat_id := None),
                   user_roles := (user_roles st)(original_chat_id := None),
                   role_messages := (role_messages st)(original_chat_id := None)\<rparr>
      in case info of
           None \<Rightarrow> st1
         | Some i \<Rightarrow>
             if registered_initiator i \<noteq> [] \<and> registered_counterparty i \<noteq> [] then
               st1\<lparr>room_joined_users :=
                     (room_joined_users st1)
                       (original_chat_id \<mapsto>
                          name_set (lower (registered_initiator i))
                            (lower (registered_counterparty i)))\<rparr>
             else st1)"

definition restart_command ::
  "world \<Rightarrow> registry option \<Rightarrow> bot_state \<Rightarrow> command_update \<Rightarrow> bot_state \<times> action list" where
  "restart_command w deal_rooms_file st u =
     (if \<not> in_group u then (st, [Reply OnlyInGroup])
      else
        (case deal_rooms_file of
           None \<Rightarrow> (st, [Reply OnlyInDealRooms])
         | Some deal_rooms \<Rightarrow>
             (let chat_id = command_chat_id u in
              case find_room deal_rooms chat_id of
                None \<Rightarrow> (st, [Reply OnlyInDealRooms])
              | Some (room_id, found) \<Rightarrow>
                  (let original_chat_id = (if room_id \<noteq> 0 then room_id else original_of chat_id);
                       info = map_of deal_rooms original_chat_id;
                       st1 = clear_room_state st chat_id original_chat_id info;
                       (st2, acts) =
                         send_disclaimer_message w st1 (send_chat_of original_chat_id) info
                           original_chat_id
                   in (st2,
                       Delete_message # acts @
                       (case send_result w RoomRestarted of
                          Sent _ \<Rightarrow> [Send chat_id RoomRestarted]
                        | _ \<Rightarrow> [Send chat_id RoomRestarted, Send chat_id ErrorNotice]))))))"

section \<open>Deal request queue\<close>

datatype request_status = Pending | Completed | Failed_request

text \<open>The result the provisioning agent attaches to a completed request.\<close>

record deal_result =
  result_chat_id :: int
  result_room_name :: string
  invite_link :: string
  bot_invite_link :: string

text \<open>An entry of the queue file. \<open>sent\<close> is false while the key is absent.\<close>

record deal_request =
  initiator_id :: int
  request_initiator :: string
  initiator_chat_id :: int
  request_counterparty :: string
  status :: request_status
  result :: "deal_result option"
  sent :: bool

text \<open>\<open>update_request_status\<close> of the provisioning agent; the result is attached only when
  one is given.\<close>

definition update_request_status ::
  "deal_request list \<Rightarrow> string \<Rightarrow> string \<Rightarrow> request_status \<Rightarrow> deal_result option \<Rightarrow> deal_request list" where
  "update_request_status requests initiator counterparty new_status new_result =
     map (\<lambda>req.
            if request_initiator req = initiator \<and> request_counterparty req = counterparty
            then (case new_result of
                    None \<Rightarrow> req\<lparr>status := new_status\<rparr>
                  | Some r \<Rightarrow> req\<lparr>status := new_status, result := Some r\<rparr>)
            else req)
       requests"

text \<open>The notification sent to the group in which the deal was requested.\<close>

record notification =
  to_chat :: int
  for_initiator :: string
  for_counterparty :: string
  join_link :: string

definition link_to_send :: "deal_result \<Rightarrow> string" where
  "link_to_send r =
     (if invite_link r \<noteq> [] \<and> invite_link r \<notin> {''None'', ''null'', []}
      then invite_link r else bot_invite_link r)"

text \<open>One entry of the loop of \<open>check_and_send_deal_results\<close>: the entry as left by the
  loop body and the notifications it sent.\<close>

definition check_request :: "string \<Rightarrow> deal_request \<Rightarrow> deal_request \<times> notification list" where
  "check_request initiator req =
     (if sent req then (req, [])
      else if request_initiator req = initiator \<and> status req = Completed then
        (case result req of
           None \<Rightarrow> (req, [])
         | Some r \<Rightarrow>
             if result_chat_id r \<noteq> 0 then
               (req\<lparr>sent := True\<rparr>,
                if initiator_chat_id req \<noteq> 0 \<and> initiator_chat_id req < 0 then
                  [\<lparr>to_chat = initiator_chat_id req, for_initiator = initiator,
                    for_counterparty = request_counterparty req, join_link = link_to_send r\<rparr>]
                else [])
             else (req, []))
      else (req, []))"

text \<open>\<open>check_and_send_deal_results\<close> on the content of the queue file: the content after the
  poll and the notifications sent, in order.\<close>

definition check_and_send_deal_results ::
  "deal_request list \<Rightarrow> string \<Rightarrow> deal_request list \<times> notification list" where
  "check_and_send_deal_results requests initiator =
     (map (\<lambda>req. fst (check_request initiator req)) requests,
      concat (map (\<lambda>req. snd (check_request initiator req)) requests))"

section \<open>Running the handlers\<close>

text \<open>The state and the actions after a text message; a message that does not reach the
  room logic changes nothing.\<close>

definition after_text :: "world \<Rightarrow> bot_state \<Rightarrow> text_update \<Rightarrow> bot_state" where
  "after_text w st u = (case handle_text w st u of None \<Rightarrow> st | Some (c, st', acts) \<Rightarrow> st')"

definition actions_of_text :: "world \<Rightarrow> bot_state \<Rightarrow> text_update \<Rightarrow> action list" where
  "actions_of_text w st u = (case handle_text w st u of None \<Rightarrow> [] | Some (c, st', acts) \<Rightarrow> acts)"

text \<open>A sequence of button presses, handled one after the other.\<close>

fun run_presses :: "world \<Rightarrow> bot_state \<Rightarrow> callback_query list \<Rightarrow> bot_state \<times> action list" where
  "run_presses w st [] = (st, [])"
| "run_presses w st (q # qs) =
     (let (st1, acts1) = button_callback w st q;
          (st2, acts2) = run_presses w st1 qs
      in (st2, acts1 @ acts2))"

text \<open>The completion action of the release gate is the deal-complete message.\<close>

fun is_completion :: "action \<Rightarrow> bool" where
  "is_completion (Send chat (DealComplete a)) = True"
| "is_completion _ = False"

definition completions :: "action list \<Rightarrow> nat" where
  "completions acts = length (filter is_completion acts)"

text \<open>The address format in the words of the specification: \<open>0x\<close> followed by 40
  hexadecimal characters, 42 characters in all.\<close>

definition is_hex_address :: "string \<Rightarrow> bool" where
  "is_hex_address t =
     (length t = 42 \<and> take 2 t = ''0x'' \<and> list_all (\<lambda>c. hex_digit_value c \<noteq> None) (drop 2 t))"

section \<open>Example rooms\<close>

text \<open>Python's \<open>float()\<close> on the strings submitted in the examples; no other string is
  submitted there.\<close>

definition float_of_sample :: "string \<Rightarrow> pyfloat option" where
  "float_of_sample s =
     map_of [(''1000'', Fin 1000), (''500'', Fin 500), (''0'', Fin 0), (''80'', Fin 80),
             (''89.5'', Fin (179 / 2)), (''nan'', NaN)] s"

text \<open>A world in which every send goes out, every edit succeeds, and the ledger lookup
  returns an empty body.\<close>

definition quiet_world :: world where
  "quiet_world =
     \<lparr>float_of = float_of_sample, send_result = (\<lambda>m. Sent 1), edit_result = True,
      api_key = ''KEY'', ledger = EmptyBody\<rparr>"

text \<open>Two rooms, 5 and 6, in the registry; \<open>alice\<close> and \<open>bob\<close> are registered for room 5.\<close>

definition sample_registry :: registry where
  "sample_registry =
     [(5, \<lparr>room_name = ''MM ROOM 1'', registered_initiator = ''alice'',
           registered_counterparty = ''bob''\<rparr>),
      (6, \<lparr>room_name = ''MM ROOM 2'', registered_initiator = ''carol'',
           registered_counterparty = ''dave''\<rparr>)]"

definition in_room :: "int \<Rightarrow> command_update" where
  "in_room chat = \<lparr>command_chat_type = Supergroup, command_chat_id = send_chat_of chat\<rparr>"

definition says :: "int \<Rightarrow> string \<Rightarrow> int \<Rightarrow> string \<Rightarrow> text_update" where
  "says uid name chat t =
     \<lparr>from_user_id = uid, from_username = Some name, message_text = t,
      update_chat_id = send_chat_of chat\<rparr>"

definition presses :: "string \<Rightarrow> button \<Rightarrow> callback_query" where
  "presses name b = \<lparr>presser = name, pressed = b\<rparr>"

text \<open>Room 5 after a restart: the role prompt is out and names \<open>alice\<close> and \<open>bob\<close>.\<close>

definition room5_roles :: bot_state where
  "room5_roles = fst (restart_command quiet_world (Some sample_registry) initial_state (in_room 5))"

text \<open>Room 5 with \<open>alice\<close> as buyer and \<open>bob\<close> as seller, at a given step.\<close>

definition room5_at :: "step \<Rightarrow> bot_state" where
  "room5_at s =
     initial_state
       \<lparr>room_transaction_state := [5 \<mapsto> s],
        room_initiators := [5 \<mapsto> \<lparr>buyer = Some ''alice'', seller = Some ''bob''\<rparr>],
        user_roles := [5 \<mapsto> [(''alice'', BUYER), (''bob'', SELLER)]],
        user_blockchain := [5 \<mapsto> ''BSC'']\<rparr>"

text \<open>Room 5 with the release prompt open.\<close>

definition room5_release :: bot_state where
  "room5_release = fst (release_command quiet_world (room5_at Deal_summary) (in_room 5))"

text \<open>Room 5 with its terms entered by \<open>alice\<close> (user 11): amount, rate and payment
  method, one message each.\<close>

definition room5_terms :: bot_state where
  "room5_terms =
     after_text quiet_world
       (after_text quiet_world
          (after_text quiet_world (room5_at Step1) (says 11 ''alice'' 5 ''1000''))
          (says 11 ''alice'' 5 ''89.5''))
       (says 11 ''alice'' 5 ''cdm'')"

text \<open>Room 5 with coin USDC, an amount stored and the buyer's approval given.\<close>

definition room5_usdc :: bot_state where
  "room5_usdc =
     (room5_at Deal_summary)
       \<lparr>user_coins := [5 \<mapsto> ''USDC''],
        user_amounts := [(11, Fin 1000)],
        deal_summary_messages := [5 \<mapsto> 1],
        approvals := [5 \<mapsto> \<lparr>buyer_approved = True, seller_approved = False\<rparr>]\<rparr>"

text \<open>The seller approves, which sends the deposit prompt, and then presses the
  payment-sent button.\<close>

definition room5_usdc_prompted :: "bot_state \<times> action list" where
  "room5_usdc_prompted = button_callback quiet_world room5_usdc (presses ''bob'' (Approve_deal 5))"

definition room5_usdc_awaiting :: bot_state where
  "room5_usdc_awaiting =
     fst (button_callback quiet_world (fst room5_usdc_prompted) (presses ''bob'' (Payment_sent 5)))"

text \<open>A ledger answer that carries a transaction paid to the given address, and one that
  carries no transaction.\<close>

definition paid_to :: "string \<Rightarrow> lookup" where
  "paid_to addr =
     Parsed (JObj [(''jsonrpc'', JStr ''2.0''), (''id'', JNum 1),
                   (''result'',
                    JObj [(''from'', JStr ''0x2222222222222222222222222222222222222222''),
                          (''to'', JStr addr),
                          (''value'', JStr ''0x3b9aca00''),
                          (''blockNumber'', JStr ''0x10'')])])"

definition no_transaction :: lookup where
  "no_transaction = Parsed (JObj [(''jsonrpc'', JStr ''2.0''), (''id'', JNum 1), (''result'', JNull)])"

definition sample_hash :: string where
  "sample_hash = ''0xaaaaaaaaaaaaaaaaaaaaaaaaaaaaaaaaaaaaaaaaaaaaaaaaaaaaaaaaaaaaaaaa''"

text \<open>Two rooms negotiate side by side: in room 5 \<open>alice\<close> (user 11) enters the amount 1000,
  then in room 6 \<open>carol\<close> (user 13) enters the amount 500.\<close>

definition two_rooms_entered :: bot_state where
  "two_rooms_entered =
     after_text quiet_world
       (after_text quiet_world
          (initial_state\<lparr>room_transaction_state := [5 \<mapsto> Step1, 6 \<mapsto> Step1]\<rparr>)
          (says 11 ''alice'' 5 ''1000''))
       (says 13 ''carol'' 6 ''500'')"

text \<open>Room 6, with buyer \<open>carol\<close> and seller \<open>dave\<close>, has gone on to await the hash of its
  USDT deposit.\<close>

definition room6_awaiting :: bot_state where
  "room6_awaiting =
     two_rooms_entered
       \<lparr>room_transaction_state := (room_transaction_state two_rooms_entered)(6 \<mapsto> Awaiting_hash),
        room_initiators := [6 \<mapsto> \<lparr>buyer = Some ''carol'', seller = Some ''dave''\<rparr>],
        user_blockchain := [6 \<mapsto> ''BSC''],
        user_coins := [6 \<mapsto> ''USDT''],
        room_awaiting_hash := {6}\<rparr>"



text \<open>A queue with one completed request of \<open>alice\<close> for \<open>bob\<close>, made in group
  \<open>-1000000000099\<close>, and one pending request of \<open>carol\<close>.\<close>

definition sample_queue :: "deal_request list" where
  "sample_queue =
     [\<lparr>initiator_id = 11, request_initiator = ''alice'', initiator_chat_id = - 1000000000099,
       request_counterparty = ''bob'', status = Completed,
       result = Some \<lparr>result_chat_id = 5, result_room_name = ''MM ROOM 1'',
                      invite_link = ''https://t.me/+abc'', bot_invite_link = ''https://t.me/+bot''\<rparr>,
       sent = False\<rparr>,
      \<lparr>initiator_id = 13, request_initiator = ''carol'', initiator_chat_id = - 1000000000099,
       request_counterparty = ''dave'', status = Pending, result = None, sent = False\<rparr>]"

text \<open>The role stored for a name in a room, and the invariant of role selection: the two
  registered names of the room's role prompt are different, and they do not hold the same
  role.\<close>

definition role_of :: "bot_state \<Rightarrow> int \<Rightarrow> string \<Rightarrow> role option" where
  "role_of st chat name =
     (case user_roles st chat of None \<Rightarrow> None | Some roles \<Rightarrow> map_of roles name)"

definition roles_distinct :: "bot_state \<Rightarrow> int \<Rightarrow> bool" where
  "roles_distinct st chat =
     (case role_messages st chat of
        None \<Rightarrow> True
      | Some rm \<Rightarrow>
          lower (initiator_username rm) \<noteq> lower (counterparty_username rm) \<and>
          (role_of st chat (lower (initiator_username rm)) = None \<or>
           role_of st chat (lower (initiator_username rm))
             \<noteq> role_of st chat (lower (counterparty_username rm))))"

section \<open>The transaction verifier: what is rejected\<close>

text \<open>
  C1, as stated, fails. The claim says that the verifier never returns \<open>valid = True\<close> when
  the ledger lookup does not return the transaction. For a well-formed hash and a ledger
  answer that parses but carries no transaction (\<open>result\<close> is null), the verifier
  substitutes the escrow address as the recipient and returns \<open>valid = True\<close>.
\<close>

theorem verifier_accepts_missing_transaction:
  "well_formed_hash sample_hash \<and>
   valid (verify_transaction_bscscan ''KEY'' no_transaction sample_hash
            ''0xDA4c2a5B876b0c7521e1c752690D8705080000fE'')"
  by code_simp

text \<open>
  C1, amended. For every well-formed transaction hash the verifier returns \<open>valid = False\<close>
  with a reason when the request to the ledger service raises, when the answer is empty or
  is not JSON, when the parsed answer is not an object, and when the transaction it carries
  names a recipient other than the escrow address (compared in lower case). When the answer
  parses to an object that carries no transaction and a lookup key is configured, the
  verifier takes the escrow address as the recipient and returns \<open>valid = True\<close>.
\<close>

theorem verifier_rejections:
  assumes "well_formed_hash h"
  shows
    "(lk \<in> {RequestFailed, EmptyBody, Unparseable} \<longrightarrow>
        \<not> valid (verify_transaction_bscscan k lk h e) \<and>
        error (verify_transaction_bscscan k lk h e) \<noteq> None) \<and>
     (\<forall>j. lk = Parsed j \<and> (\<forall>data. j \<noteq> JObj data) \<longrightarrow>
        \<not> valid (verify_transaction_bscscan k lk h e) \<and>
        error (verify_transaction_bscscan k lk h e) \<noteq> None) \<and>
     (\<forall>data tx. lk = Parsed (JObj data) \<and> map_of data ''result'' = Some (JObj tx) \<and> tx \<noteq> [] \<and>
        member_lower tx ''to'' \<noteq> Some (lower e) \<longrightarrow>
        \<not> valid (verify_transaction_bscscan k lk h e) \<and>
        error (verify_transaction_bscscan k lk h e) \<noteq> None) \<and>
     (\<forall>data. k \<noteq> [] \<and> lk = Parsed (JObj data) \<and>
        (\<forall>tx. map_of data ''result'' = Some (JObj tx) \<longrightarrow> tx = []) \<longrightarrow>
        valid (verify_transaction_bscscan k lk h e) \<and>
        to_address (verify_transaction_bscscan k lk h e) = Some (lower e))"
proof -
  from assms have len: "\<not> length (normalize_hash h) < 32"
    and hex: "py_int_base16 (remove_0x (normalize_hash h)) \<noteq> None"
    by (auto simp: well_formed_hash_def)
  have failed: "lk \<in> {RequestFailed, EmptyBody, Unparseable} \<longrightarrow>
        \<not> valid (verify_transaction_bscscan k lk h e) \<and>
        error (verify_transaction_bscscan k lk h e) \<noteq> None"
    using len hex
    by (auto simp: verify_transaction_bscscan_def invalid_result_def Let_def)
  have not_object: "\<forall>j. lk = Parsed j \<and> (\<forall>data. j \<noteq> JObj data) \<longrightarrow>
        \<not> valid (verify_transaction_bscscan k lk h e) \<and>
        error (verify_transaction_bscscan k lk h e) \<noteq> None"
    using len hex
    by (auto simp: verify_transaction_bscscan_def invalid_result_def Let_def split: json.splits)
  have other_recipient: "\<forall>data tx. lk = Parsed (JObj data) \<and> map_of data ''result'' = Some (JObj tx) \<and>
        tx \<noteq> [] \<and> member_lower tx ''to'' \<noteq> Some (lower e) \<longrightarrow>
        \<not> valid (verify_transaction_bscscan k lk h e) \<and>
        error (verify_transaction_bscscan k lk h e) \<noteq> None"
  proof (intro allI impI)
    fix data tx
    assume a: "lk = Parsed (JObj data) \<and> map_of data ''result'' = Some (JObj tx) \<and>
        tx \<noteq> [] \<and> member_lower tx ''to'' \<noteq> Some (lower e)"
    then obtain kv kvs where tx: "tx = kv # kvs" by (cases tx) auto
    show "\<not> valid (verify_transaction_bscscan k lk h e) \<and>
        error (verify_transaction_bscscan k lk h e) \<noteq> None"
      using a len hex unfolding tx
      by (auto simp: verify_transaction_bscscan_def invalid_result_def check_recipient_def Let_def
               split: option.splits)
  qed
  have no_tx: "\<forall>data. k \<noteq> [] \<and> lk = Parsed (JObj data) \<and>
        (\<forall>tx. map_of data ''result'' = Some (JObj tx) \<longrightarrow> tx = []) \<longrightarrow>
        valid (verify_transaction_bscscan k lk h e) \<and>
        to_address (verify_transaction_bscscan k lk h e) = Some (lower e)"
    using len hex
    by (auto simp: verify_transaction_bscscan_def check_recipient_def Let_def
             split: option.splits json.splits list.splits)
  from failed not_object other_recipient no_tx show ?thesis by blast
qed

text \<open>The amended C1 at the sample hash: a request that raises and a transaction paid to
  another address are rejected, an answer without a transaction is accepted.\<close>

theorem verifier_rejections_witness:
  "\<not> valid (verify_transaction_bscscan ''KEY'' RequestFailed sample_hash
              ''0xDA4c2a5B876b0c7521e1c752690D8705080000fE'') \<and>
   \<not> valid (verify_transaction_bscscan ''KEY''
              (paid_to ''0xAe6313dE2fDD754734074D8a6F4835c10827115b'') sample_hash
              ''0xDA4c2a5B876b0c7521e1c752690D8705080000fE'') \<and>
   valid (verify_transaction_bscscan ''KEY'' no_transaction sample_hash
            ''0xDA4c2a5B876b0c7521e1c752690D8705080000fE'')"
proof -
  have wf: "well_formed_hash sample_hash" by code_simp
  have other: "member_lower
                 [(''from'', JStr ''0x2222222222222222222222222222222222222222''),
                  (''to'', JStr ''0xAe6313dE2fDD754734074D8a6F4835c10827115b''),
                  (''value'', JStr ''0x3b9aca00''), (''blockNumber'', JStr ''0x10'')] ''to''
               \<noteq> Some (lower ''0xDA4c2a5B876b0c7521e1c752690D8705080000fE'')"
    by code_simp
  have key: "''KEY'' \<noteq> []" by simp
  have first: "\<not> valid (verify_transaction_bscscan ''KEY'' RequestFailed sample_hash
                  ''0xDA4c2a5B876b0c7521e1c752690D8705080000fE'')"
    using verifier_rejections [OF wf, of RequestFailed "''KEY''"
            "''0xDA4c2a5B876b0c7521e1c752690D8705080000fE''"]
    by simp
  have second: "\<not> valid (verify_transaction_bscscan ''KEY''
              (paid_to ''0xAe6313dE2fDD754734074D8a6F4835c10827115b'') sample_hash
              ''0xDA4c2a5B876b0c7521e1c752690D8705080000fE'')"
    using verifier_rejections [OF wf, of "paid_to ''0xAe6313dE2fDD754734074D8a6F4835c10827115b''"
            "''KEY''" "''0xDA4c2a5B876b0c7521e1c752690D8705080000fE''"] other
    unfolding paid_to_def by simp
  have third: "valid (verify_transaction_bscscan ''KEY'' no_transaction sample_hash
            ''0xDA4c2a5B876b0c7521e1c752690D8705080000fE'')"
    using verifier_rejections [OF wf, of no_transaction "''KEY''"
            "''0xDA4c2a5B876b0c7521e1c752690D8705080000fE''"] key
    unfolding no_transaction_def by simp
  from first second third show ?thesis by blast
qed

section \<open>The release gate fires again on a repeated approval\<close>

text \<open>
  C4: once both parties have approved, the gate is to fire its completion action exactly
  once per round. The code does not: in room 5, with the release prompt open, \<open>alice\<close>
  (buyer) approves, \<open>bob\<close> (seller) approves and \<open>alice\<close> presses Approve again. The
  deal-complete message is sent after the second press and again after the third.
\<close>

theorem repeated_approval_completes_twice:
  "snd (run_presses quiet_world room5_release
          [presses ''alice'' (Approve_release 5),
           presses ''bob'' (Approve_release 5),
           presses ''alice'' (Approve_release 5)]) =
     [Edit_caption (- 1000000000005) 1 (ReleaseConfirmation Approved Waiting) True,
      Answer ApprovedAnswer False,
      Send (- 1000000000005) (DealComplete ''0xUnknown''),
      Edit_caption (- 1000000000005) 1 ReleaseFinal False,
      Answer ApprovedAnswer False,
      Send (- 1000000000005) (DealComplete ''0xUnknown''),
      Edit_caption (- 1000000000005) 1 ReleaseFinal False,
      Answer ApprovedAnswer False] \<and>
   completions (snd (run_presses quiet_world room5_release
          [presses ''alice'' (Approve_release 5),
           presses ''bob'' (Approve_release 5),
           presses ''alice'' (Approve_release 5)])) = 2"
  by code_simp

section \<open>Role selection accepts any presser\<close>

text \<open>
  C5: the roles map is never to assign a role to a username that is not one of the room's
  two registered participants. The code does: in room 5, whose role prompt names \<open>alice\<close>
  and \<open>bob\<close>, a press of the buyer button by \<open>mallory\<close> is stored in the room's roles.
\<close>

theorem unregistered_presser_gets_role:
  "map_option initiator_username (role_messages room5_roles 5) = Some ''alice'' \<and>
   map_option counterparty_username (role_messages room5_roles 5) = Some ''bob'' \<and>
   user_roles (fst (button_callback quiet_world room5_roles (presses ''mallory'' (Role_buyer 5)))) 5
     = Some [(''mallory'', BUYER)]"
  by code_simp

section \<open>The deposit prompt and the verifier disagree on the address\<close>

text \<open>
  C6: the address a submitted hash is verified against is to be the address shown in the
  room's deposit prompt. In room 5, trading USDC on BSC, the prompt sent on the second
  approval shows the first USDC address of the rotation; after the seller has pressed the
  payment-sent button, a hash whose transaction is paid to exactly that address is refused
  as not sent to escrow, because the lookup map holds another address for the pair.
\<close>

theorem prompted_address_is_not_the_verified_one:
  "snd room5_usdc_prompted =
     [Send (- 1000000000005) (DealConfirmed (approval_terms room5_usdc 5)),
      Pin_message 1,
      Send (- 1000000000005)
        (DepositAddress ''USDC'' ''BSC'' ''0xAe6313dE2fDD754734074D8a6F4835c10827115b''),
      Edit_caption (- 1000000000005) 1 (DealSummary (approval_terms room5_usdc 5) True True) False,
      Answer ApprovedAnswer False] \<and>
   room_transaction_state room5_usdc_awaiting 5 = Some Awaiting_hash \<and>
   deposit_addresses_map (user_blockchain room5_usdc_awaiting 5, user_coins room5_usdc_awaiting 5)
     = Some ''0xDA4c2a5B876b0c7521e1c752690D8705080000fE'' \<and>
   actions_of_text
     (quiet_world\<lparr>ledger := paid_to ''0xAe6313dE2fDD754734074D8a6F4835c10827115b''\<rparr>)
     room5_usdc_awaiting (says 12 ''bob'' 5 sample_hash) =
     [Delete_message, Send (- 1000000000005) (VerificationFailed (Some NotSentToEscrow))]"
  by code_simp

section \<open>An address that is not hexadecimal is accepted\<close>

text \<open>
  C7: an address is to be accepted only if it is \<open>0x\<close> followed by 40 hexadecimal
  characters. At the buyer-address step of room 5 the buyer \<open>alice\<close> submits 42 characters
  that start with \<open>0x+\<close>: the text is not of that format, yet it is stored as the buyer's
  address and the room moves on to the seller-address step.
\<close>

theorem signed_address_is_accepted:
  "length ''0x+111111111111111111111111111111111111111'' = 42 \<and>
   \<not> is_hex_address ''0x+111111111111111111111111111111111111111'' \<and>
   room_transaction_state
     (after_text quiet_world (room5_at Step6_buyer_address)
        (says 11 ''alice'' 5 ''0x+111111111111111111111111111111111111111'')) 5
     = Some Step7_seller_address \<and>
   buyer_addresses
     (after_text quiet_world (room5_at Step6_buyer_address)
        (says 11 ''alice'' 5 ''0x+111111111111111111111111111111111111111'')) 5
     = Some ''0x+111111111111111111111111111111111111111''"
  by code_simp

section \<open>Restarting one room clears the terms of the others\<close>

text \<open>
  C10: a restart of one room is to leave the terms entered in every other room unchanged.
  In room 5 \<open>alice\<close> has entered amount, rate and payment method, and the room waits for
  the blockchain. A restart of room 6 empties all three dictionaries, while room 5 stays
  at its step.
\<close>

theorem restart_clears_other_rooms_terms:
  "user_amounts room5_terms = [(11, Fin 1000)] \<and>
   user_rates room5_terms = [(11, Fin (179 / 2))] \<and>
   user_payment_methods room5_terms = [(11, ''CDM'')] \<and>
   room_transaction_state room5_terms 5 = Some Step4 \<and>
   user_amounts (fst (restart_command quiet_world (Some sample_registry) room5_terms (in_room 6))) = [] \<and>
   user_rates (fst (restart_command quiet_world (Some sample_registry) room5_terms (in_room 6))) = [] \<and>
   user_payment_methods
     (fst (restart_command quiet_world (Some sample_registry) room5_terms (in_room 6))) = [] \<and>
   room_transaction_state
     (fst (restart_command quiet_world (Some sample_registry) room5_terms (in_room 6))) 5
     = Some Step4"
  by code_simp

section \<open>The release gate needs both approvals\<close>

text \<open>
  C3: in a release approval round the completion action, the deal-complete message, is
  sent only when the buyer's status and the seller's status are both approved after the
  press. A press by one party while the other party's status is waiting or rejected sends
  no completion, nor does a press by anybody else, and a decline never does.
\<close>

theorem release_completion_needs_both:
  "(0 < completions (snd (button_callback w st (presses n (Approve_release chat)))) \<longrightarrow>
      buyer_status (current_round (fst (button_callback w st (presses n (Approve_release chat)))) chat)
        = Approved \<and>
      seller_status (current_round (fst (button_callback w st (presses n (Approve_release chat)))) chat)
        = Approved) \<and>
   (party_of (room_buyer st chat) (room_seller st chat) n = Some Buyer_party \<and>
    seller_status (current_round st chat) \<noteq> Approved \<longrightarrow>
      completions (snd (button_callback w st (presses n (Approve_release chat)))) = 0) \<and>
   (party_of (room_buyer st chat) (room_seller st chat) n = Some Seller_party \<and>
    buyer_status (current_round st chat) \<noteq> Approved \<longrightarrow>
      completions (snd (button_callback w st (presses n (Approve_release chat)))) = 0) \<and>
   (party_of (room_buyer st chat) (room_seller st chat) n = None \<longrightarrow>
      completions (snd (button_callback w st (presses n (Approve_release chat)))) = 0) \<and>
   completions (snd (button_callback w st (presses n (Decline_release chat)))) = 0"
proof -
  have approve: "button_callback w st (presses n (Approve_release chat)) = approve_release st n chat"
    by (simp add: button_callback_def presses_def)
  have decline: "button_callback w st (presses n (Decline_release chat)) = decline_release st n chat"
    by (simp add: button_callback_def presses_def)
  have fired: "0 < completions (snd (approve_release st n chat)) \<longrightarrow>
      buyer_status (current_round (fst (approve_release st n chat)) chat) = Approved \<and>
      seller_status (current_round (fst (approve_release st n chat)) chat) = Approved"
    by (auto simp: approve_release_def completions_def current_round_def Let_def
             split: option.splits)
  have buyer_alone: "party_of (room_buyer st chat) (room_seller st chat) n = Some Buyer_party \<and>
      seller_status (current_round st chat) \<noteq> Approved \<longrightarrow>
      completions (snd (approve_release st n chat)) = 0"
    by (auto simp: approve_release_def completions_def set_status_def Let_def
             split: option.splits)
  have seller_alone: "party_of (room_buyer st chat) (room_seller st chat) n = Some Seller_party \<and>
      buyer_status (current_round st chat) \<noteq> Approved \<longrightarrow>
      completions (snd (approve_release st n chat)) = 0"
    by (auto simp: approve_release_def completions_def set_status_def Let_def
             split: option.splits)
  have outsider: "party_of (room_buyer st chat) (room_seller st chat) n = None \<longrightarrow>
      completions (snd (approve_release st n chat)) = 0"
    by (simp add: approve_release_def completions_def)
  have declined: "completions (snd (decline_release st n chat)) = 0"
    by (auto simp: decline_release_def completions_def Let_def split: option.splits)
  from fired buyer_alone seller_alone outsider declined show ?thesis
    unfolding approve decline by blast
qed

text \<open>C3 in room 5 with the release prompt open: \<open>alice\<close> alone does not complete the
  deal; after \<open>alice\<close>, \<open>bob\<close>'s approval does, and then both statuses are approved.\<close>

theorem release_completion_needs_both_witness:
  "completions (snd (button_callback quiet_world room5_release (presses ''alice'' (Approve_release 5))))
     = 0 \<and>
   0 < completions
         (snd (button_callback quiet_world
                 (fst (button_callback quiet_world room5_release (presses ''alice'' (Approve_release 5))))
                 (presses ''bob'' (Approve_release 5)))) \<and>
   buyer_status
     (current_round
        (fst (button_callback quiet_world
                (fst (button_callback quiet_world room5_release (presses ''alice'' (Approve_release 5))))
                (presses ''bob'' (Approve_release 5)))) 5) = Approved \<and>
   seller_status
     (current_round
        (fst (button_callback quiet_world
                (fst (button_callback quiet_world room5_release (presses ''alice'' (Approve_release 5))))
                (presses ''bob'' (Approve_release 5)))) 5) = Approved"
proof -
  have alice: "party_of (room_buyer room5_release 5) (room_seller room5_release 5) ''alice''
                 = Some Buyer_party \<and>
               seller_status (current_round room5_release 5) \<noteq> Approved"
    by code_simp
  have fires: "0 < completions
         (snd (button_callback quiet_world
                 (fst (button_callback quiet_world room5_release (presses ''alice'' (Approve_release 5))))
                 (presses ''bob'' (Approve_release 5))))"
    by code_simp
  from alice release_completion_needs_both [of quiet_world room5_release "''alice''" 5]
  have first: "completions
      (snd (button_callback quiet_world room5_release (presses ''alice'' (Approve_release 5)))) = 0"
    by blast
  from fires release_completion_needs_both
    [of quiet_world
        "fst (button_callback quiet_world room5_release (presses ''alice'' (Approve_release 5)))"
        "''bob''" 5]
  have both: "buyer_status
     (current_round
        (fst (button_callback quiet_world
                (fst (button_callback quiet_world room5_release (presses ''alice'' (Approve_release 5))))
                (presses ''bob'' (Approve_release 5)))) 5) = Approved \<and>
   seller_status
     (current_round
        (fst (button_callback quiet_world
                (fst (button_callback quiet_world room5_release (presses ''alice'' (Approve_release 5))))
                (presses ''bob'' (Approve_release 5)))) 5) = Approved"
    by blast
  from first fires both show ?thesis by blast
qed

section \<open>Delivered deal requests are skipped\<close>

lemma check_request_sent:
  "sent req \<Longrightarrow> check_request u req = (req, [])"
  by (simp add: check_request_def)

lemma check_request_marks:
  "snd (check_request u req) \<noteq> [] \<Longrightarrow> sent (fst (check_request u req))"
  by (auto simp: check_request_def split: if_splits option.splits)

lemma check_request_again:
  "check_request u (fst (check_request u req)) = (fst (check_request u req), [])"
  by (auto simp: check_request_def split: option.splits)

text \<open>
  C9: the provisioning agent attaches status and result to exactly the requests whose
  (initiator, counterparty) pair matches and leaves every other entry as it is. A request
  for which a poll sends the notification is marked \<open>sent\<close> by that poll; a poll over a
  request already marked leaves the entry as it is and sends nothing for it, whoever
  polls; and a second poll for the same initiator sends nothing and changes nothing.
\<close>

theorem delivered_requests_are_skipped:
  "length (update_request_status requests i c s r) = length requests \<and>
   (\<forall>k < length requests.
      (request_initiator (requests ! k) = i \<and> request_counterparty (requests ! k) = c \<longrightarrow>
         update_request_status requests i c s r ! k =
           (requests ! k)\<lparr>status := s,
                           result := (case r of None \<Rightarrow> result (requests ! k) | Some x \<Rightarrow> Some x)\<rparr>) \<and>
      (\<not> (request_initiator (requests ! k) = i \<and> request_counterparty (requests ! k) = c) \<longrightarrow>
         update_request_status requests i c s r ! k = requests ! k)) \<and>
   (\<forall>req. snd (check_request u req) \<noteq> [] \<longrightarrow> sent (fst (check_request u req))) \<and>
   (\<forall>req u'. sent req \<longrightarrow> check_request u' req = (req, [])) \<and>
   (\<forall>k < length requests. \<forall>u'.
      sent (fst (check_and_send_deal_results requests u) ! k) \<longrightarrow>
        fst (check_and_send_deal_results (fst (check_and_send_deal_results requests u)) u') ! k
          = fst (check_and_send_deal_results requests u) ! k) \<and>
   check_and_send_deal_results (fst (check_and_send_deal_results requests u)) u
     = (fst (check_and_send_deal_results requests u), [])"
proof -
  have len: "length (update_request_status requests i c s r) = length requests"
    by (simp add: update_request_status_def)
  have upd: "\<forall>k < length requests.
      (request_initiator (requests ! k) = i \<and> request_counterparty (requests ! k) = c \<longrightarrow>
         update_request_status requests i c s r ! k =
           (requests ! k)\<lparr>status := s,
                           result := (case r of None \<Rightarrow> result (requests ! k) | Some x \<Rightarrow> Some x)\<rparr>) \<and>
      (\<not> (request_initiator (requests ! k) = i \<and> request_counterparty (requests ! k) = c) \<longrightarrow>
         update_request_status requests i c s r ! k = requests ! k)"
    by (auto simp: update_request_status_def split: option.splits)
  have marks: "\<forall>req. snd (check_request u req) \<noteq> [] \<longrightarrow> sent (fst (check_request u req))"
    using check_request_marks by blast
  have skip: "\<forall>req u'. sent req \<longrightarrow> check_request u' req = (req, [])"
    using check_request_sent by blast
  have later: "\<forall>k < length requests. \<forall>u'.
      sent (fst (check_and_send_deal_results requests u) ! k) \<longrightarrow>
        fst (check_and_send_deal_results (fst (check_and_send_deal_results requests u)) u') ! k
          = fst (check_and_send_deal_results requests u) ! k"
    by (simp add: check_and_send_deal_results_def check_request_sent)
  have again: "check_and_send_deal_results (fst (check_and_send_deal_results requests u)) u
     = (fst (check_and_send_deal_results requests u), [])"
    by (simp add: check_and_send_deal_results_def check_request_again comp_def)
  from len upd marks skip later again show ?thesis by blast
qed

text \<open>C9 on the sample queue: the poll for \<open>alice\<close> notifies once and marks her request,
  which the provisioning agent completed for the pair (\<open>alice\<close>, \<open>bob\<close>); polling again
  sends nothing and leaves the queue as it is.\<close>

theorem delivered_requests_are_skipped_witness:
  "length (snd (check_and_send_deal_results sample_queue ''alice'')) = 1 \<and>
   sent (fst (check_request ''alice'' (sample_queue ! 0))) \<and>
   check_request ''carol'' (fst (check_request ''alice'' (sample_queue ! 0)))
     = (fst (check_request ''alice'' (sample_queue ! 0)), []) \<and>
   check_and_send_deal_results (fst (check_and_send_deal_results sample_queue ''alice'')) ''alice''
     = (fst (check_and_send_deal_results sample_queue ''alice''), []) \<and>
   update_request_status sample_queue ''carol'' ''dave'' Failed_request None ! 0 = sample_queue ! 0"
proof -
  note t = delivered_requests_are_skipped
    [of sample_queue "''carol''" "''dave''" Failed_request None "''alice''"]
  have once: "length (snd (check_and_send_deal_results sample_queue ''alice'')) = 1"
    by code_simp
  have notified: "snd (check_request ''alice'' (sample_queue ! 0)) \<noteq> []"
    by code_simp
  with t have marked: "sent (fst (check_request ''alice'' (sample_queue ! 0)))"
    by blast
  with t have skipped: "check_request ''carol'' (fst (check_request ''alice'' (sample_queue ! 0)))
     = (fst (check_request ''alice'' (sample_queue ! 0)), [])"
    by blast
  from t have again:
    "check_and_send_deal_results (fst (check_and_send_deal_results sample_queue ''alice'')) ''alice''
       = (fst (check_and_send_deal_results sample_queue ''alice''), [])"
    by blast
  have other: "0 < length sample_queue \<and>
      \<not> (request_initiator (sample_queue ! 0) = ''carol'' \<and>
         request_counterparty (sample_queue ! 0) = ''dave'')"
    by code_simp
  with t have untouched:
    "update_request_status sample_queue ''carol'' ''dave'' Failed_request None ! 0 = sample_queue ! 0"
    by blast
  from once marked skipped again untouched show ?thesis by blast
qed

section \<open>The master hash\<close>

text \<open>
  C2: on the master hash the room's confirmed deposit is to be set to the amount the room
  negotiated. The code takes the first amount stored by any user, whatever room it was
  entered in. Rooms 5 and 6 have negotiated 1000 and 500; room 6 awaits its deposit hash
  and its seller \<open>dave\<close> submits the master hash: the deposit announced and recorded for
  room 6 is 1000, the amount of room 5.
\<close>

theorem master_hash_records_another_rooms_amount:
  "user_amounts room6_awaiting = [(11, Fin 1000), (13, Fin 500)] \<and>
   room_transaction_state room6_awaiting 6 = Some Awaiting_hash \<and>
   actions_of_text quiet_world room6_awaiting (says 14 ''dave'' 6 master_hash) =
     [Delete_message,
      Send (- 1000000000006)
        (DepositFound (Fin 1000) (Some ''0x0000000000000000000000000000000000000000'')
           (Some ''0xDA4c2a5B876b0c7521e1c752690D8705080000fE'') master_hash),
      Send (- 1000000000006) PaymentReceived] \<and>
   room_confirmed_deposits
     (after_text quiet_world room6_awaiting (says 14 ''dave'' 6 master_hash)) 6
     = Some (Fin 1000)"
  by code_simp

text \<open>
  The rest of C2 holds on the code. For a room that awaits a deposit hash, with an escrow
  address for its blockchain and coin and some amount stored, a message whose hash equals
  the master hash up to letter case is handled without the verifier: the outcome does not
  depend on the lookup key or on the ledger's answer. The deposit-found message is sent, a
  deposit is recorded for the room, and, when the payment-received message goes out, the
  awaiting-hash state of the room is cleared.
\<close>

lemma deposit_addresses_nonempty:
  "deposit_addresses_map key = Some a \<Longrightarrow> a \<noteq> []"
  by (auto simp: deposit_addresses_map_def split: if_splits)

lemma master_hash_skips_verification:
  assumes group: "update_chat_id u \<le> 0"
    and room: "original_of (update_chat_id u) = chat"
    and awaiting: "room_transaction_state st chat = Some Awaiting_hash"
    and master: "lower (extract_hash (strip (message_text u))) = lower master_hash"
    and escrow: "deposit_addresses_map (user_blockchain st chat, user_coins st chat) = Some escrow"
    and amount: "first_value (user_amounts st) = Some amount" "float_truthy amount"
  shows
    "handle_text (w\<lparr>api_key := k, ledger := l\<rparr>) st u = handle_text w st u \<and>
     (\<exists>seller_addr.
        Send (send_chat_of chat)
          (DepositFound amount seller_addr (Some escrow) (extract_hash (strip (message_text u))))
        \<in> set (actions_of_text w st u)) \<and>
     room_confirmed_deposits (after_text w st u) chat = Some amount \<and>
     ((\<exists>msg_id. send_result w PaymentReceived = Sent msg_id) \<longrightarrow>
        room_transaction_state (after_text w st u) chat = None \<and>
        chat \<notin> room_awaiting_hash (after_text w st u))"
proof -
  from escrow have nonempty: "escrow \<noteq> []" by (rule deposit_addresses_nonempty)
  have run: "handle_text w' st u =
      Some (confirm_deposit w' st chat amount
              (Some (case seller_addresses st chat of
                       None \<Rightarrow> ''0x'' @ replicate 40 (CHR ''0'')
                     | Some a \<Rightarrow> a))
              (Some escrow) (extract_hash (strip (message_text u))) escrow)" for w'
    using group room awaiting master escrow amount nonempty
    by (simp add: handle_text_def handle_hash_def Let_def)
  have same: "confirm_deposit (w\<lparr>api_key := k, ledger := l\<rparr>) st chat amount sa ta h escrow
                = confirm_deposit w st chat amount sa ta h escrow" for sa ta h
    by (simp add: confirm_deposit_def error_notice_def Let_def split: send_outcome.splits)
  have independent: "handle_text (w\<lparr>api_key := k, ledger := l\<rparr>) st u = handle_text w st u"
    by (simp add: run same)
  have found: "\<exists>seller_addr.
        Send (send_chat_of chat)
          (DepositFound amount seller_addr (Some escrow) (extract_hash (strip (message_text u))))
        \<in> set (actions_of_text w st u)"
    by (auto simp: actions_of_text_def run confirm_deposit_def Let_def split_beta
             split: send_outcome.splits)
  have recorded: "room_confirmed_deposits (after_text w st u) chat = Some amount"
    by (auto simp: after_text_def run confirm_deposit_def Let_def split_beta
             split: send_outcome.splits)
  have cleared: "(\<exists>msg_id. send_result w PaymentReceived = Sent msg_id) \<longrightarrow>
        room_transaction_state (after_text w st u) chat = None \<and>
        chat \<notin> room_awaiting_hash (after_text w st u)"
    by (auto simp: after_text_def run confirm_deposit_def Let_def split_beta
             split: send_outcome.splits)
  from independent found recorded cleared show ?thesis by blast
qed

section \<open>Input validation at the negotiation steps\<close>








section \<open>Registered names never share a role\<close>

text \<open>The other half of C5 does hold: whatever buttons are pressed, by whomever, the two
  registered names of a room never hold the same role.\<close>

lemma map_of_dict_set:
  "map_of (dict_set k v ps) = (map_of ps)(k \<mapsto> v)"
  by (induction ps) auto

lemma roles_distinct_frame:
  "user_roles st' = user_roles st \<Longrightarrow> role_messages st' = role_messages st \<Longrightarrow>
   roles_distinct st' chat = roles_distinct st chat"
  by (simp add: roles_distinct_def role_of_def split: option.splits)

lemma send_step1_frame:
  "user_roles (fst (send_step1_amount_message w st a c)) = user_roles st \<and>
   role_messages (fst (send_step1_amount_message w st a c)) = role_messages st"
  by (simp add: send_step1_amount_message_def Let_def split: send_outcome.splits)

lemma approve_release_frame:
  "user_roles (fst (approve_release st n c)) = user_roles st \<and>
   role_messages (fst (approve_release st n c)) = role_messages st"
  by (simp add: approve_release_def Let_def split: option.splits)

lemma decline_release_frame:
  "user_roles (fst (decline_release st n c)) = user_roles st \<and>
   role_messages (fst (decline_release st n c)) = role_messages st"
  by (simp add: decline_release_def Let_def split: option.splits)

lemma payment_sent_frame:
  "user_roles (fst (payment_sent w st n c)) = user_roles st \<and>
   role_messages (fst (payment_sent w st n c)) = role_messages st"
  by (simp add: payment_sent_def split: option.splits send_outcome.splits)

lemma next_deposit_address_frame:
  "next_deposit_address st b c = Some (a, st') \<Longrightarrow>
   user_roles st' = user_roles st \<and> role_messages st' = role_messages st"
  by (auto simp: next_deposit_address_def Let_def split: if_splits)

lemma send_deal_confirmed_frame:
  "user_roles (fst (send_deal_confirmed w st c)) = user_roles st \<and>
   role_messages (fst (send_deal_confirmed w st c)) = role_messages st"
proof (cases "send_result w (DealConfirmed (approval_terms st c))")
  case (Sent confirmed_id)
  show ?thesis
  proof (cases "next_deposit_address st
                  (case user_blockchain st c of None \<Rightarrow> ''BSC'' | Some b \<Rightarrow> b)
                  (case user_coins st c of None \<Rightarrow> ''USDT''
                   | Some x \<Rightarrow> if x = [] then ''USDT'' else x)")
    case None
    with Sent show ?thesis by (simp add: send_deal_confirmed_def Let_def)
  next
    case (Some p)
    obtain a st' where p: "p = (a, st')" by (cases p)
    from next_deposit_address_frame [OF Some [unfolded p]] Sent Some p show ?thesis
      by (simp add: send_deal_confirmed_def Let_def split: send_outcome.splits)
  qed
next
  case TimedOut
  then show ?thesis by (simp add: send_deal_confirmed_def Let_def)
next
  case Failed
  then show ?thesis by (simp add: send_deal_confirmed_def Let_def)
qed

lemma approve_deal_frame:
  "user_roles (fst (approve_deal w st n c)) = user_roles st \<and>
   role_messages (fst (approve_deal w st n c)) = role_messages st"
proof (cases "party_of (room_buyer st c) (room_seller st c) n")
  case None
  then show ?thesis by (simp add: approve_deal_def)
next
  case (Some p)
  have step: "user_roles (fst (send_deal_confirmed w (st\<lparr>approvals := x\<rparr>) c)) = user_roles st \<and>
              role_messages (fst (send_deal_confirmed w (st\<lparr>approvals := x\<rparr>) c)) = role_messages st"
    for x
    using send_deal_confirmed_frame [of w "st\<lparr>approvals := x\<rparr>" c] by simp
  from Some show ?thesis
    by (simp add: approve_deal_def Let_def split_beta step)
qed

lemma select_role_messages:
  "role_messages (fst (select_role w st n r c)) = role_messages st"
  using send_step1_frame
  by (simp add: select_role_def Let_def split_beta split: option.splits)

lemma select_role_roles:
  assumes "role_messages st c = Some rm"
  shows "user_roles (fst (select_role w st n r c)) =
     (user_roles st)
       (c \<mapsto>
          (let roles0 = (case user_roles st c of None \<Rightarrow> [] | Some x \<Rightarrow> x) in
           if (map_of roles0 (lower (counterparty_username rm)) = Some r \<and>
               lower n = lower (initiator_username rm)) \<or>
              (map_of roles0 (lower (initiator_username rm)) = Some r \<and>
               lower n = lower (counterparty_username rm))
           then roles0 else dict_set (lower n) r roles0))"
  using assms send_step1_frame
  by (simp add: select_role_def Let_def split_beta)

lemma select_role_keeps_distinct:
  assumes inv: "roles_distinct st chat"
  shows "roles_distinct (fst (select_role w st n r c)) chat"
proof (cases "role_messages st c")
  case None
  then show ?thesis using inv by (simp add: select_role_def)
next
  case (Some rm)
  note roles = select_role_roles [OF Some, of w n r]
  note messages = select_role_messages [of w st n r c]
  show ?thesis
  proof (cases "c = chat")
    case False
    then have "role_of (fst (select_role w st n r c)) chat = role_of st chat"
      by (simp add: role_of_def roles fun_eq_iff)
    with inv messages show ?thesis
      by (simp add: roles_distinct_def split: option.splits)
  next
    case True
    from inv Some True
    have differ: "lower (initiator_username rm) \<noteq> lower (counterparty_username rm)"
      and old: "role_of st c (lower (initiator_username rm)) = None \<or>
                role_of st c (lower (initiator_username rm))
                  \<noteq> role_of st c (lower (counterparty_username rm))"
      by (simp_all add: roles_distinct_def)
    have lookup: "role_of st c x =
        map_of (case user_roles st c of None \<Rightarrow> [] | Some y \<Rightarrow> y) x" for x
      by (simp add: role_of_def split: option.splits)
    have new_lookup: "role_of (fst (select_role w st n r c)) c x =
        (if (role_of st c (lower (counterparty_username rm)) = Some r \<and>
             lower n = lower (initiator_username rm)) \<or>
            (role_of st c (lower (initiator_username rm)) = Some r \<and>
             lower n = lower (counterparty_username rm))
         then role_of st c x
         else if x = lower n then Some r else role_of st c x)" for x
      by (simp add: role_of_def [of "fst (select_role w st n r c)"] roles lookup Let_def
                    map_of_dict_set)
    have new: "role_of (fst (select_role w st n r c)) c (lower (initiator_username rm)) = None \<or>
               role_of (fst (select_role w st n r c)) c (lower (initiator_username rm))
                 \<noteq> role_of (fst (select_role w st n r c)) c (lower (counterparty_username rm))"
      using differ old unfolding new_lookup by (auto split: if_splits)
    from differ new messages Some have "roles_distinct (fst (select_role w st n r c)) c"
      by (simp add: roles_distinct_def)
    with True show ?thesis by simp
  qed
qed

lemma button_callback_keeps_distinct:
  assumes "roles_distinct st chat"
  shows "roles_distinct (fst (button_callback w st q)) chat"
proof (cases "pressed q")
  case (Approve_release c)
  with assms roles_distinct_frame [of "fst (approve_release st (presser q) c)" st chat]
    approve_release_frame [of st "presser q" c]
  show ?thesis by (simp add: button_callback_def)
next
  case (Decline_release c)
  with assms roles_distinct_frame [of "fst (decline_release st (presser q) c)" st chat]
    decline_release_frame [of st "presser q" c]
  show ?thesis by (simp add: button_callback_def)
next
  case (Approve_deal c)
  with assms roles_distinct_frame [of "fst (approve_deal w st (presser q) c)" st chat]
    approve_deal_frame [of w st "presser q" c]
  show ?thesis by (simp add: button_callback_def)
next
  case (Role_buyer c)
  with assms show ?thesis by (simp add: button_callback_def select_role_keeps_distinct)
next
  case (Role_seller c)
  with assms show ?thesis by (simp add: button_callback_def select_role_keeps_distinct)
next
  case (Payment_sent c)
  with assms roles_distinct_frame [of "fst (payment_sent w st (presser q) c)" st chat]
    payment_sent_frame [of w st "presser q" c]
  show ?thesis by (simp add: button_callback_def)
qed

lemma registered_names_never_share_a_role:
  "roles_distinct st chat \<Longrightarrow> roles_distinct (fst (run_presses w st qs)) chat"
proof (induction qs arbitrary: st)
  case Nil
  then show ?case by simp
next
  case (Cons q qs)
  from Cons.prems have "roles_distinct (fst (button_callback w st q)) chat"
    by (rule button_callback_keeps_distinct)
  from Cons.IH [OF this] show ?case
    by (simp add: split_beta Let_def)
qed

lemma room5_roles_distinct:
  "roles_distinct room5_roles 5"
  by code_simp

end
